theory Spec2Isabelle
  imports Main "HOL-Library.Word" "HOL-Library.Sublist"
begin

unbundle bit_operations_syntax

section \<open>libvlc-common.c: instance creation, initialisation, cleanup and destruction\<close>

text \<open>
  A shallow embedding of \<^verbatim>\<open>src/libvlc-common.c\<close>. The file-level statics
  (\<^verbatim>\<open>libvlc_global\<close>, \<^verbatim>\<open>p_static_vlc\<close>, \<^verbatim>\<open>i_instances\<close>) form the record
  \<open>process\<close>; an instance (\<^verbatim>\<open>libvlc_int_t\<close>) is a record of the fields this file
  touches. Calls into other translation units (threads, messages, module bank,
  configuration store, D-Bus, playlist, interfaces) are recorded, in program order, in the
  \<open>trace\<close> of the process; what they return is read from an environment record.
  Preprocessor conditionals are the fields of the record \<open>build\<close>.
\<close>

subsection \<open>Build configuration, return codes, recorded calls\<close>

record build =
  WIN32 :: bool
  APPLE :: bool
  HAVE_ISATTY :: bool
  HAVE_DAEMON :: bool
  NLS_GETTEXT :: bool
  HAVE_DBUS_3 :: bool
  HAVE_X11_XLIB_H :: bool
  HAVE_SYSLOG_H :: bool
  HAVE_HAL :: bool
  ARCH_X86 :: bool
  ARCH_PPC :: bool
  LP64 :: bool

text \<open>
  \<open>NLS_GETTEXT\<close> stands for
  \<^verbatim>\<open>defined(ENABLE_NLS) && (defined(HAVE_GETTEXT) || defined(HAVE_INCLUDED_GETTEXT))\<close>,
  \<open>ARCH_X86\<close> for \<^verbatim>\<open>__i386__ || __x86_64__\<close> and \<open>ARCH_PPC\<close> for
  \<^verbatim>\<open>__powerpc__ || __ppc__ || __ppc64__\<close>. \<open>LP64\<close> says that \<^verbatim>\<open>long\<close> has 64 bits (it has
  32 otherwise); \<^verbatim>\<open>int\<close> has 32 bits on every build and is a \<open>32 word\<close>, read as a
  signed value by \<open>sint\<close>.
\<close>

text \<open>
  The \<^verbatim>\<open>VLC_*\<close> return codes are declared in \<^verbatim>\<open>vlc/vlc.h\<close>; only their identity
  matters here. \<open>VLC_ERRNO n\<close> is any other code handed through from a callee.
\<close>

datatype vlc_status =
    VLC_SUCCESS | VLC_EGENERIC | VLC_EEXIT | VLC_EEXITSUCCESS | VLC_ERRNO int

text \<open>A function of this file either returns to its caller or ends the process with \<^verbatim>\<open>exit(n)\<close>.\<close>

datatype outcome = Returned vlc_status | Exited int

datatype object_type = VLC_OBJECT_INTF | VLC_OBJECT_VOUT | VLC_OBJECT_AOUT
  | VLC_OBJECT_ANNOUNCE | VLC_OBJECT_PLAYLIST | VLC_OBJECT_OTHER

text \<open>Calls into the rest of the program, grouped by subsystem.\<close>

datatype thread_call = ThreadsInit | ThreadsEnd | MutexLock | MutexUnlock | MutexDestroy

datatype system_call =
    SystemInit | SystemConfigure | SystemEnd
  | SetLanguage string | LocaleInit | LocaleDeinit
  | Daemon | Fork | CloseStdio | WritePidfile string
  | InitDeviceValues | ShowConsole bool | PauseConsole | Stderr string

datatype msg_call =
    MsgCreate | MsgFlush | MsgDestroy | MsgErr string | MsgWarn string | MsgDbg string

datatype module_call =
    ModuleInitBank | ModuleEndBank | ModuleLoadBuiltins | ModuleLoadPlugins
  | ModuleNeed string bool | ModuleUnneed
  | HelpModuleCreate bool | ConfigDuplicate | HelpAttach | HelpDetach
  | ConfigFree | HelpModuleDestroy

datatype config_call =
    ConfigLoadCmdLine bool | ConfigLoadConfigFile "string option"
  | ConfigResetAll | ConfigSaveConfigFile
  | Help string | Version | ListModules
  | VarCreate string | VarSet string int | VarAddCallback string | VarTrigger string

datatype dbus_call =
    DbusBusGet bool | DbusRequestName | DbusProbe bool | DbusRegisterRoot bool
  | DbusNewAddMRL bool | DbusSend string bool | DbusFlush | DbusAwaitReply
  | DbusMsgUnref | DbusPendingUnref | DbusUnref

datatype playlist_call =
    PlaylistThreadCreate bool | PlaylistThreadDestroy | ServicesDiscoveryAdd string
  | PlaylistPlay | AddIntf string "string list" | AddTarget string "string list"

datatype object_call =
    IntfCreate string "string list" bool | IntfRunThread nat | IntfStopThread nat
  | IntfDestroy nat | ObjectDetach nat | ObjectRelease nat
  | VoutDestroy nat | AoutDelete nat | AnnounceHandlerDestroy nat
  | StatsTimersDumpAll | StatsTimersClean | ObjectDestroySelf

datatype action =
    Thread thread_call | Sys system_call | Msg msg_call | Module module_call
  | Config config_call | Dbus dbus_call | Playlist playlist_call | Object object_call

subsection \<open>The statics of the file and the instance record\<close>

text \<open>
  Modelled from the spec: the module registry (\<^verbatim>\<open>module_InitBank\<close> and
  \<^verbatim>\<open>module_EndBank\<close> live in another file). The spec calls it reference-counted, with
  one \<^verbatim>\<open>EndBank\<close> per \<^verbatim>\<open>InitBank\<close>: a bank carries its use count and the
  cache-delete flag this file reads and writes; a new bank starts with the flag off.
\<close>

record module_bank_t =
  i_usage :: nat
  b_cache_delete :: bool

record libvlc_global_data_t =
  b_ready :: bool
  i_cpu :: "32 word"
  p_module_bank :: "module_bank_t option"
  b_daemon :: bool

record process =
  i_instances :: "32 word"
  libvlc_global :: libvlc_global_data_t
  p_static_vlc :: "nat option"
  trace :: "action list"

record libvlc_int_t =
  i_object_id :: nat
  psz_object_name :: string
  i_verbose :: "32 word"
  b_color :: bool
  b_attached :: bool
  psz_homedir :: "string option"
  psz_userdir :: "string option"
  psz_configfile :: "string option"
  p_playlist :: "nat option"
  p_memcpy_module :: "nat option"
  b_stats :: bool
  p_hotkeys :: bool
  children :: "(object_type \<times> nat) list"

definition emit :: "action \<Rightarrow> process \<Rightarrow> process" where
  "emit a w = w\<lparr>trace := trace w @ [a]\<rparr>"

definition emits :: "action list \<Rightarrow> process \<Rightarrow> process" where
  "emits as w = w\<lparr>trace := trace w @ as\<rparr>"

definition module_InitBank :: "process \<Rightarrow> process" where
  "module_InitBank w =
     (let g = libvlc_global w;
          bank = (case p_module_bank g of
                    None \<Rightarrow> \<lparr>i_usage = 1, b_cache_delete = False\<rparr>
                  | Some bk \<Rightarrow> bk\<lparr>i_usage := i_usage bk + 1\<rparr>)
      in emit (Module ModuleInitBank) (w\<lparr>libvlc_global := g\<lparr>p_module_bank := Some bank\<rparr>\<rparr>))"

definition module_EndBank :: "process \<Rightarrow> process" where
  "module_EndBank w =
     (let g = libvlc_global w;
          bank = (case p_module_bank g of
                    None \<Rightarrow> None
                  | Some bk \<Rightarrow> if 1 < i_usage bk then Some (bk\<lparr>i_usage := i_usage bk - 1\<rparr>)
                               else None)
      in emit (Module ModuleEndBank) (w\<lparr>libvlc_global := g\<lparr>p_module_bank := bank\<rparr>\<rparr>))"

subsection \<open>\<^verbatim>\<open>atoi\<close> and \<^verbatim>\<open>__MIN\<close>\<close>

text \<open>
  \<^verbatim>\<open>atoi\<close> belongs to the C library, where it is \<^verbatim>\<open>(int) strtol(s, NULL, 10)\<close>:
  leading white space is skipped, an optional sign is read, then decimal digits up to the
  first other character; \<^verbatim>\<open>strtol\<close> stops at the ends of the range of \<^verbatim>\<open>long\<close>, and the
  conversion to \<^verbatim>\<open>int\<close> keeps the low 32 bits.
\<close>

definition isspace :: "char \<Rightarrow> bool" where
  "isspace c = (c \<in> set [CHR '' '', CHR 0x09, CHR 0x0A, CHR 0x0B, CHR 0x0C, CHR 0x0D])"

definition isdigit :: "char \<Rightarrow> bool" where
  "isdigit c = (48 \<le> (of_char c :: nat) \<and> (of_char c :: nat) \<le> 57)"

fun digits_value :: "int \<Rightarrow> string \<Rightarrow> int" where
  "digits_value acc [] = acc"
| "digits_value acc (c # cs) =
     (if isdigit c then digits_value (10 * acc + (int (of_char c) - 48)) cs else acc)"

definition decimal_value :: "string \<Rightarrow> int" where
  "decimal_value s =
     (case dropWhile isspace s of
        [] \<Rightarrow> 0
      | c # cs \<Rightarrow>
          if c = CHR ''-'' then - digits_value 0 cs
          else if c = CHR ''+'' then digits_value 0 cs
          else digits_value 0 (c # cs))"

definition strtol :: "build \<Rightarrow> string \<Rightarrow> int" where
  "strtol b s =
     (let long_max = (if LP64 b then 2 ^ 63 - 1 else 2 ^ 31 - 1)
      in max (- long_max - 1) (min long_max (decimal_value s)))"

definition atoi :: "build \<Rightarrow> string \<Rightarrow> 32 word" where
  "atoi b s = word_of_int (strtol b s)"

text \<open>\<^verbatim>\<open>__MIN(a, b)\<close> is \<^verbatim>\<open>((a) < (b) ? (a) : (b))\<close>, here on two \<^verbatim>\<open>int\<close>s.\<close>

definition vlc_MIN :: "32 word \<Rightarrow> 32 word \<Rightarrow> 32 word" where
  "vlc_MIN a b = (if sint a < sint b then a else b)"

subsection \<open>\<^verbatim>\<open>libvlc_InternalCreate\<close>\<close>

record create_env =
  vlc_threads_init :: int
  CPUCapabilities :: "32 word"
  vlc_object_create :: "nat option"
  getenv_VLC_VERBOSE :: "string option"
  isatty_stderr :: bool

text \<open>
  The instance returned by \<^verbatim>\<open>vlc_object_create\<close> is zero-filled; the function then
  sets the fields below. The decrement on the allocation-failure path is the one of the
  source (\<^verbatim>\<open>i_instances--; return NULL;\<close>).
\<close>

definition libvlc_InternalCreate ::
  "build \<Rightarrow> create_env \<Rightarrow> process \<Rightarrow> process \<times> libvlc_int_t option" where
  "libvlc_InternalCreate b e w0 =
     (let w1 = emit (Thread ThreadsInit) w0 in
      if vlc_threads_init e < 0 then (w1, None)
      else
        let w2 = emit (Thread MutexLock) w1;
            w3 = w2\<lparr>i_instances := i_instances w2 + 1\<rparr>;
            g = libvlc_global w3;
            w4 = (if \<not> b_ready g
                  then w3\<lparr>libvlc_global :=
                           g\<lparr>i_cpu := CPUCapabilities e, p_module_bank := None,
                             b_ready := True\<rparr>\<rparr>
                  else w3);
            w5 = emit (Thread MutexUnlock) w4
        in case vlc_object_create e of
             None \<Rightarrow> (w5\<lparr>i_instances := i_instances w5 - 1\<rparr>, None)
           | Some oid \<Rightarrow>
               let p = \<lparr>i_object_id = oid,
                        psz_object_name = ''libvlc'',
                        i_verbose = (case getenv_VLC_VERBOSE e of
                                       Some psz_env \<Rightarrow> atoi b psz_env | None \<Rightarrow> - 1),
                        b_color = (if HAVE_ISATTY b \<and> \<not> WIN32 b then isatty_stderr e
                                   else False),
                        b_attached = True,
                        psz_homedir = None, psz_userdir = None, psz_configfile = None,
                        p_playlist = None, p_memcpy_module = None,
                        b_stats = False, p_hotkeys = False, children = []\<rparr>;
                   w6 = emits [Msg MsgCreate, Msg (MsgDbg ''COPYRIGHT_MESSAGE''),
                               Msg (MsgDbg ''libvlc was configured with CONFIGURE_LINE'')] w5
               in (w6\<lparr>p_static_vlc := Some oid\<rparr>, Some p))"

subsection \<open>\<^verbatim>\<open>VerboseCallback\<close>\<close>

definition VerboseCallback :: "libvlc_int_t \<Rightarrow> 32 word \<Rightarrow> libvlc_int_t" where
  "VerboseCallback p_libvlc new_val =
     (if sint new_val \<ge> - 1 then p_libvlc\<lparr>i_verbose := vlc_MIN new_val 2\<rparr> else p_libvlc)"

subsection \<open>\<^verbatim>\<open>libvlc_InternalDestroy\<close>\<close>

definition libvlc_InternalDestroy :: "libvlc_int_t \<Rightarrow> bool \<Rightarrow> process \<Rightarrow> process" where
  "libvlc_InternalDestroy p_libvlc b_release w0 =
     (let w1 = (if p_memcpy_module p_libvlc \<noteq> None then emit (Module ModuleUnneed) w0 else w0);
          w2 = module_EndBank w1;
          w3 = emit (Thread MutexLock) w2;
          w4 = w3\<lparr>i_instances := i_instances w3 - 1\<rparr>;
          w5 = (if i_instances w4 = 0 then emits [Sys SystemEnd, Sys LocaleDeinit] w4 else w4);
          w6 = emits [Thread MutexUnlock, Msg MsgFlush, Msg MsgDestroy, Thread MutexDestroy,
                      Thread MutexDestroy] w5;
          w7 = (if b_release then emit (Object (ObjectRelease (i_object_id p_libvlc))) w6 else w6)
      in emits [Object ObjectDestroySelf, Thread ThreadsEnd] w7)"

subsection \<open>Sequences of creations and destructions\<close>

text \<open>
  The critical sections of \<^verbatim>\<open>libvlc_InternalCreate\<close> and
  \<^verbatim>\<open>libvlc_InternalDestroy\<close> run under the \<^verbatim>\<open>"libvlc"\<close> mutex, so concurrent callers
  are serialised; a run is a list of calls. \<^verbatim>\<open>libvlc_InternalDestroy\<close> needs an
  instance: \<open>CallDestroy k\<close> destroys the \<open>k\<close>-th live instance and is not a call at all
  when there is none.
\<close>

datatype api_call = CallCreate create_env | CallDestroy nat bool

fun run_call :: "build \<Rightarrow> api_call \<Rightarrow> process \<times> libvlc_int_t list \<Rightarrow> process \<times> libvlc_int_t list" where
  "run_call b (CallCreate e) (w, live) =
     (case libvlc_InternalCreate b e w of
        (w', None) \<Rightarrow> (w', live)
      | (w', Some p) \<Rightarrow> (w', live @ [p]))"
| "run_call b (CallDestroy k b_release) (w, live) =
     (if k < length live
      then (libvlc_InternalDestroy (live ! k) b_release w, take k live @ drop (Suc k) live)
      else (w, live))"

fun run_calls :: "build \<Rightarrow> api_call list \<Rightarrow> process \<times> libvlc_int_t list \<Rightarrow> process \<times> libvlc_int_t list" where
  "run_calls b [] s = s"
| "run_calls b (c # cs) s = run_calls b cs (run_call b c s)"

definition process_start :: process where
  "process_start =
     \<lparr>i_instances = 0,
      libvlc_global = \<lparr>b_ready = False, i_cpu = 0, p_module_bank = None, b_daemon = False\<rparr>,
      p_static_vlc = None, trace = []\<rparr>"

definition teardowns :: "action list \<Rightarrow> action list" where
  "teardowns tr = filter (\<lambda>a. a = Sys SystemEnd \<or> a = Sys LocaleDeinit) tr"

text \<open>
  Counting along a run, without the machine: \<open>live_after calls n\<close> is the number of live
  instances after \<open>calls\<close>, starting from \<open>n\<close>, and \<open>idle_returns calls n\<close> the number of
  destructions in \<open>calls\<close> that leave no live instance. A creation adds an instance when
  the thread system and the allocation both succeed.
\<close>

definition creates :: "create_env \<Rightarrow> bool" where
  "creates e = (\<not> vlc_threads_init e < 0 \<and> vlc_object_create e \<noteq> None)"

fun live_after :: "api_call list \<Rightarrow> nat \<Rightarrow> nat" where
  "live_after [] n = n"
| "live_after (CallCreate e # cs) n = live_after cs (if creates e then Suc n else n)"
| "live_after (CallDestroy k b_release # cs) n = live_after cs (if k < n then n - 1 else n)"

fun idle_returns :: "api_call list \<Rightarrow> nat \<Rightarrow> nat" where
  "idle_returns [] n = 0"
| "idle_returns (CallCreate e # cs) n = idle_returns cs (if creates e then Suc n else n)"
| "idle_returns (CallDestroy k b_release # cs) n =
     (if k < n then (if n = 1 then 1 else 0) + idle_returns cs (n - 1)
      else idle_returns cs n)"

subsection \<open>\<^verbatim>\<open>libvlc_InternalCleanup\<close>\<close>

text \<open>
  Modelled from the spec: \<^verbatim>\<open>vlc_object_find\<close> and \<^verbatim>\<open>vlc_object_detach\<close> (the object
  tree lives in another file). The handles an instance tracks are the list \<open>children\<close>
  of typed object ids; \<^verbatim>\<open>vlc_object_find(p, type, FIND_CHILD)\<close> yields the first child
  of that type, or \<^verbatim>\<open>NULL\<close>, and \<^verbatim>\<open>vlc_object_detach\<close> takes a child off the list.
\<close>

definition vlc_object_find :: "libvlc_int_t \<Rightarrow> object_type \<Rightarrow> (object_type \<times> nat) option" where
  "vlc_object_find p ty = List.find (\<lambda>ch. fst ch = ty) (children p)"

definition vlc_object_detach :: "(object_type \<times> nat) \<Rightarrow> libvlc_int_t \<Rightarrow> libvlc_int_t" where
  "vlc_object_detach ch p = p\<lparr>children := remove1 ch (children p)\<rparr>"

text \<open>
  The four \<^verbatim>\<open>while( (p = vlc_object_find( ... )) )\<close> loops differ only in the type
  looked for and in the calls of the body, given as \<open>body\<close>.
\<close>

function destroy_all ::
  "object_type \<Rightarrow> (nat \<Rightarrow> action list) \<Rightarrow> libvlc_int_t \<times> process \<Rightarrow> libvlc_int_t \<times> process" where
  "destroy_all ty body (p, w) =
     (case vlc_object_find p ty of
        None \<Rightarrow> (p, w)
      | Some ch \<Rightarrow> destroy_all ty body (vlc_object_detach ch p, emits (body (snd ch)) w))"
  by pat_completeness auto
termination
proof (relation "measure (\<lambda>(ty, body, p, w). length (children p))")
  show "wf (measure (\<lambda>(ty, body, p, w). length (children p)))"
    by simp
next
  fix ty :: object_type and body :: "nat \<Rightarrow> action list" and p w ch
  assume "vlc_object_find p ty = Some ch"
  then have "ch \<in> set (children p)"
    by (auto simp: vlc_object_find_def find_Some_iff)
  then show "((ty, body, vlc_object_detach ch p, emits (body (snd ch)) w), (ty, body, p, w))
      \<in> measure (\<lambda>(ty, body, p, w). length (children p))"
    by (simp add: vlc_object_detach_def length_remove1) (cases "children p"; simp)
qed

definition intf_body :: "nat \<Rightarrow> action list" where
  "intf_body i = [Object (IntfStopThread i), Object (ObjectDetach i), Object (ObjectRelease i),
                  Object (IntfDestroy i)]"

definition vout_body :: "nat \<Rightarrow> action list" where
  "vout_body i = [Object (ObjectDetach i), Object (ObjectRelease i), Object (VoutDestroy i)]"

definition aout_body :: "nat \<Rightarrow> action list" where
  "aout_body i = [Object (ObjectDetach i), Object (ObjectRelease i), Object (AoutDelete i)]"

definition announce_body :: "nat \<Rightarrow> action list" where
  "announce_body i = [Msg (MsgDbg ''removing announce handler''), Object (ObjectDetach i),
                      Object (ObjectRelease i), Object (AnnounceHandlerDestroy i)]"

definition libvlc_InternalCleanup ::
  "libvlc_int_t \<Rightarrow> process \<Rightarrow> libvlc_int_t \<times> process \<times> vlc_status" where
  "libvlc_InternalCleanup p_libvlc w0 =
     (let (p1, w1) = destroy_all VLC_OBJECT_INTF intf_body
                       (p_libvlc, emit (Msg (MsgDbg ''removing all interfaces'')) w0);
          w2 = emits [Msg (MsgDbg ''removing playlist''), Playlist PlaylistThreadDestroy,
                      Msg (MsgDbg ''removing all video outputs'')] w1;
          (p3, w3) = destroy_all VLC_OBJECT_VOUT vout_body (p1, w2);
          (p4, w4) = destroy_all VLC_OBJECT_AOUT aout_body
                       (p3, emit (Msg (MsgDbg ''removing all audio outputs'')) w3);
          w5 = emits [Object StatsTimersDumpAll, Object StatsTimersClean] w4;
          (p6, w6) = destroy_all VLC_OBJECT_ANNOUNCE announce_body (p4, w5)
      in (p6, w6, VLC_SUCCESS))"

text \<open>The ids of the children of one type, in the order of the list.\<close>

definition ids_of :: "object_type \<Rightarrow> libvlc_int_t \<Rightarrow> nat list" where
  "ids_of ty p = map snd (filter (\<lambda>ch. fst ch = ty) (children p))"

subsection \<open>\<^verbatim>\<open>libvlc_InternalAddIntf\<close>\<close>

text \<open>
  \<open>config_intf\<close> is what \<^verbatim>\<open>config_GetPsz( p_libvlc, "intf" )\<close> returns, \<open>intf_Create\<close>
  the new interface (its object id and its \<^verbatim>\<open>b_play\<close> flag) or \<^verbatim>\<open>NULL\<close>, and
  \<open>intf_RunThread\<close> the status of starting it.
\<close>

record intf_env =
  config_intf :: "string option"
  intf_Create :: "(nat \<times> bool) option"
  intf_RunThread :: int

definition intf_module_name :: "build \<Rightarrow> intf_env \<Rightarrow> libvlc_global_data_t \<Rightarrow> string option \<Rightarrow> bool \<Rightarrow> string" where
  "intf_module_name b e g psz_module b_block =
     (let psz_module' =
            (if \<not> WIN32 b \<and> b_daemon g \<and> b_block \<and> psz_module = None
             then (case config_intf e of
                     None \<Rightarrow> Some ''dummy''
                   | Some psz_interface \<Rightarrow>
                       if psz_interface = [] then Some ''dummy'' else psz_module)
             else psz_module)
      in case psz_module' of Some m \<Rightarrow> m | None \<Rightarrow> ''$intf'')"

definition libvlc_InternalAddIntf ::
  "build \<Rightarrow> intf_env \<Rightarrow> libvlc_int_t \<Rightarrow> string option \<Rightarrow> bool \<Rightarrow> bool \<Rightarrow> string list
     \<Rightarrow> process \<Rightarrow> process \<times> vlc_status" where
  "libvlc_InternalAddIntf b e p_libvlc psz_module b_block b_play ppsz_options w0 =
     (let name = intf_module_name b e (libvlc_global w0) psz_module b_block
      in case intf_Create e of
           None \<Rightarrow>
             (emits [Object (IntfCreate name ppsz_options False),
                     Msg (MsgErr ''interface initialization failed'')] w0, VLC_EGENERIC)
         | Some (i, intf_b_play) \<Rightarrow>
             let w1 = emit (Object (IntfCreate name ppsz_options True)) w0;
                 w2 = (if \<not> intf_b_play \<and> b_play then emit (Playlist PlaylistPlay) w1
                       else w1);
                 w3 = emit (Object (IntfRunThread i)) w2
             in if intf_RunThread e \<noteq> 0
                then (emits [Object (ObjectDetach i), Object (IntfDestroy i)] w3,
                      VLC_ERRNO (intf_RunThread e))
                else (w3, VLC_SUCCESS))"

subsection \<open>\<^verbatim>\<open>libvlc_InternalInit\<close>: environment and local state\<close>

text \<open>
  What the callees of \<^verbatim>\<open>libvlc_InternalInit\<close> return. Every option is read at one
  place of the function, so \<open>config_GetInt\<close> and \<open>config_GetPsz\<close> give, for each option
  name, the value read there. \<open>ppsz_argv\<close> is the argument vector (\<^verbatim>\<open>i_argc\<close> is its
  length) and \<open>optind\<close> the index of the first argument that is not an option, as the
  command-line parser leaves them. \<open>cpu_mask\<close> gives the \<^verbatim>\<open>CPU_CAPABILITY_*\<close> constants
  of \<^verbatim>\<open>vlc_cpu.h\<close>.
\<close>

datatype name_reply = NameError | PrimaryOwner | NotPrimaryOwner

datatype forward_result =
    NewCallNull | AppendStringFails | AppendBoolFails | SendFails | PendingNull
  | Acknowledged

datatype cpu_capability = CAP_486 | CAP_586 | CAP_PPRO | CAP_MMX | CAP_3DNOW | CAP_MMXEXT
  | CAP_SSE | CAP_SSE2 | CAP_ALTIVEC | CAP_FPU

record init_env =
  ppsz_argv :: "string list"
  optind :: nat
  help_module_create :: bool
  cmdline_first :: int
  cmdline_final :: int
  config_GetInt :: "string \<Rightarrow> 32 word"
  config_GetPsz :: "string \<Rightarrow> string option"
  config_GetHomeDir :: "string option"
  config_GetUserDir :: "string option"
  daemon_ret :: int
  fork_ret :: int
  pidfile_open :: bool
  b_die_after_plugins :: bool
  dbus_bus_get :: bool
  dbus_request_name :: name_reply
  dbus_probe_reply :: bool
  dbus_forward :: "nat \<Rightarrow> forward_result"
  dbus_register_object_path :: bool
  verbose_var :: "32 word"
  cpu_mask :: "cpu_capability \<Rightarrow> 32 word"
  module_Need_memcpy :: "nat option"
  playlist_ThreadCreate :: "nat option"
  sprintf_joined :: "string option"
  open_var :: "string option"

text \<open>
  The locals \<^verbatim>\<open>b_exit\<close> and \<^verbatim>\<open>i_ret\<close> travel with the process and the instance.
  A step of the function either goes on (\<open>Go\<close>) or leaves it (\<open>Stop\<close>): by
  \<^verbatim>\<open>return\<close>, by \<^verbatim>\<open>exit\<close>, or by dereferencing \<^verbatim>\<open>NULL\<close> (\<open>Fault\<close>).
\<close>

record init_ctx =
  proc :: process
  vlc :: libvlc_int_t
  b_exit :: bool
  i_ret :: vlc_status

datatype ending = Ends outcome | Fault

datatype flow = Stop ending init_ctx | Go init_ctx

definition andthen :: "flow \<Rightarrow> (init_ctx \<Rightarrow> flow) \<Rightarrow> flow" where
  "andthen r f = (case r of Stop out c \<Rightarrow> Stop out c | Go c \<Rightarrow> f c)"

definition say :: "action list \<Rightarrow> init_ctx \<Rightarrow> init_ctx" where
  "say as c = c\<lparr>proc := emits as (proc c)\<rparr>"

definition init_bank :: "init_ctx \<Rightarrow> init_ctx" where
  "init_bank c = c\<lparr>proc := module_InitBank (proc c)\<rparr>"

definition end_bank :: "init_ctx \<Rightarrow> init_ctx" where
  "end_bank c = c\<lparr>proc := module_EndBank (proc c)\<rparr>"

text \<open>
  \<^verbatim>\<open>libvlc_global.p_module_bank->b_cache_delete\<close>, read and written. The bank exists
  wherever the function does so (\<^verbatim>\<open>module_InitBank\<close> has run); with no bank the read
  gives \<open>False\<close> and the write does nothing.
\<close>

definition get_cache_delete :: "init_ctx \<Rightarrow> bool" where
  "get_cache_delete c =
     (case p_module_bank (libvlc_global (proc c)) of
        None \<Rightarrow> False | Some bk \<Rightarrow> b_cache_delete bk)"

definition set_cache_delete :: "bool \<Rightarrow> init_ctx \<Rightarrow> init_ctx" where
  "set_cache_delete v c =
     c\<lparr>proc := (proc c)\<lparr>libvlc_global := (libvlc_global (proc c))
          \<lparr>p_module_bank :=
             map_option (\<lambda>bk. bk\<lparr>b_cache_delete := v\<rparr>)
               (p_module_bank (libvlc_global (proc c)))\<rparr>\<rparr>\<rparr>"

definition set_daemon :: "init_ctx \<Rightarrow> init_ctx" where
  "set_daemon c =
     c\<lparr>proc := (proc c)\<lparr>libvlc_global := (libvlc_global (proc c))\<lparr>b_daemon := True\<rparr>\<rparr>\<rparr>"

definition exit_with :: "vlc_status \<Rightarrow> init_ctx \<Rightarrow> init_ctx" where
  "exit_with r c = c\<lparr>b_exit := True, i_ret := r\<rparr>"

subsection \<open>Lines 289--363: system, locale, module bank, help module, command line\<close>

text \<open>The loop that finds the executable name: the part of \<^verbatim>\<open>argv[0]\<close> after its last slash.\<close>

fun object_name_from :: "string \<Rightarrow> string \<Rightarrow> string" where
  "object_name_from name [] = name"
| "object_name_from name (ch # p_tmp) =
     (if ch = CHR ''/'' then object_name_from p_tmp p_tmp else object_name_from name p_tmp)"

definition init_startup :: "build \<Rightarrow> init_env \<Rightarrow> init_ctx \<Rightarrow> flow" where
  "init_startup b e c0 =
     (let c1 = say [Sys SystemInit] c0;
          c2 = c1\<lparr>vlc := (vlc c1)\<lparr>psz_object_name :=
                  (case ppsz_argv e of
                     argv0 # _ \<Rightarrow> object_name_from argv0 argv0
                   | [] \<Rightarrow> ''vlc'')\<rparr>\<rparr>;
          c3 = say [Sys (SetLanguage []), Sys LocaleInit,
                    Msg (MsgDbg ''translation test: code is C'')] c2;
          c4 = init_bank c3
      in if \<not> help_module_create e
         then Stop (Ends (Returned VLC_EGENERIC))
                (end_bank (say [Module (HelpModuleCreate False)] c4))
         else Go (say [Module (HelpModuleCreate True), Module ConfigDuplicate,
                       Module HelpAttach] c4))"

definition init_cmdline_first :: "build \<Rightarrow> init_env \<Rightarrow> init_ctx \<Rightarrow> flow" where
  "init_cmdline_first b e c0 =
     (let c1 = say [Config (ConfigLoadCmdLine True)] c0
      in if cmdline_first e \<noteq> 0
         then Stop (Ends (Returned VLC_EGENERIC))
                (end_bank (say [Module HelpDetach, Module ConfigFree,
                                Module HelpModuleDestroy] c1))
         else if config_GetInt e ''help'' \<noteq> 0
         then Go (exit_with VLC_EEXITSUCCESS (say [Config (Help ''help'')] c1))
         else if config_GetInt e ''version'' \<noteq> 0
         then Go (exit_with VLC_EEXITSUCCESS (say [Config Version] c1))
         else Go c1)"

subsection \<open>Lines 365--394: configuration paths, plugins cache, verbosity\<close>

text \<open>
  The rewriting of a configuration file name that starts with \<^verbatim>\<open>~/\<close>:
  \<^verbatim>\<open>sprintf( psz, "%s/%s", psz_userdir, psz_configfile + 2 )\<close>. The buffer,
  \<^verbatim>\<open>strlen(userdir) + strlen(configfile)\<close> bytes, holds the result and its terminator
  exactly; \<^verbatim>\<open>malloc\<close> is taken to succeed.
\<close>

definition resolve_configfile :: "string \<Rightarrow> string option \<Rightarrow> string option" where
  "resolve_configfile userdir configfile =
     (case configfile of
        Some (c0 # c1 # rest) \<Rightarrow>
          if c0 = CHR ''~'' \<and> c1 = CHR ''/'' then Some (userdir @ ''/'' @ rest)
          else configfile
      | _ \<Rightarrow> configfile)"

text \<open>
  \<^verbatim>\<open>strdup(p_libvlc->psz_homedir)\<close> with no home directory dereferences \<^verbatim>\<open>NULL\<close>.
\<close>

definition init_config_paths :: "build \<Rightarrow> init_env \<Rightarrow> init_ctx \<Rightarrow> flow" where
  "init_config_paths b e c0 =
     (let homedir = config_GetHomeDir e
      in case (case config_GetUserDir e of Some u \<Rightarrow> Some u | None \<Rightarrow> homedir) of
           None \<Rightarrow> Stop Fault (c0\<lparr>vlc := (vlc c0)\<lparr>psz_homedir := homedir\<rparr>\<rparr>)
         | Some userdir \<Rightarrow>
             let c1 = c0\<lparr>vlc := (vlc c0)
                        \<lparr>psz_homedir := homedir, psz_userdir := Some userdir,
                          psz_configfile :=
                            resolve_configfile userdir (config_GetPsz e ''config'')\<rparr>\<rparr>;
                 c2 = (if config_GetInt e ''reset-plugins-cache'' \<noteq> 0
                       then set_cache_delete True c1 else c1);
                 c3 = say [Module HelpDetach] c2
             in Go (c3\<lparr>vlc := (vlc c3)\<lparr>i_verbose := config_GetInt e ''verbose''\<rparr>\<rparr>))"

subsection \<open>Lines 396--467: daemon mode, first exit point\<close>

definition pidfile_step :: "init_env \<Rightarrow> init_ctx \<Rightarrow> init_ctx" where
  "pidfile_step e c =
     (case config_GetPsz e ''pidfile'' of
        None \<Rightarrow> c
      | Some psz_pidfile \<Rightarrow>
          if pidfile_open e
          then say [Msg (MsgDbg ''PID is %d, writing it to %s''),
                    Sys (WritePidfile psz_pidfile)] c
          else say [Msg (MsgDbg ''PID is %d, writing it to %s''),
                    Msg (MsgErr ''cannot open pid file for writing'')] c)"

definition daemon_step :: "build \<Rightarrow> init_env \<Rightarrow> init_ctx \<Rightarrow> init_ctx" where
  "daemon_step b e c =
     (if WIN32 b \<or> config_GetInt e ''daemon'' = 0 then c
      else if HAVE_DAEMON b
      then
        let c1 = (if daemon_ret e \<noteq> 0
                  then (say [Sys Daemon,
                             Msg (MsgErr ''Unable to fork vlc to daemon mode'')] c)
                         \<lparr>b_exit := True\<rparr>
                  else say [Sys Daemon] c)
        in pidfile_step e (set_daemon c1)
      else if fork_ret e < 0
      then (say [Sys Fork, Msg (MsgErr ''unable to fork vlc to daemon mode'')] c)
             \<lparr>b_exit := True\<rparr>
      else if fork_ret e \<noteq> 0
      then exit_with VLC_EEXITSUCCESS
             (say [Sys Fork, Msg (MsgDbg ''closing parent process'')] c)
      else set_daemon (say [Sys Fork, Msg (MsgDbg ''daemon spawned''), Sys CloseStdio] c))"

definition init_daemon :: "build \<Rightarrow> init_env \<Rightarrow> init_ctx \<Rightarrow> flow" where
  "init_daemon b e c0 =
     (let c1 = daemon_step b e c0
      in if b_exit c1
         then Stop (Ends (Returned (i_ret c1)))
                (end_bank (say [Module ConfigFree, Module HelpModuleDestroy] c1))
         else Go c1)"

subsection \<open>Lines 469--498: language reload\<close>

definition init_language :: "build \<Rightarrow> init_env \<Rightarrow> init_ctx \<Rightarrow> flow" where
  "init_language b e c0 =
     (if NLS_GETTEXT b \<and> (WIN32 b \<or> APPLE b)
      then
        let c1 = say [Config (ConfigLoadConfigFile (Some ''main'')),
                      Config (ConfigLoadCmdLine True)] c0
        in case config_GetPsz e ''language'' of
             None \<Rightarrow> Go c1
           | Some psz_language \<Rightarrow>
               if psz_language \<noteq> [] \<and> psz_language \<noteq> ''auto''
               then
                 let saved = get_cache_delete c1;
                     c2 = say [Sys (SetLanguage psz_language),
                               Msg (MsgDbg ''translation test: code is C'')] c1;
                     c3 = init_bank (end_bank c2);
                     c4 = say [Config (ConfigLoadConfigFile (Some ''main'')),
                               Config (ConfigLoadCmdLine True)] c3
                 in Go (set_cache_delete saved c4)
               else Go c1
      else Go c0)"

subsection \<open>Lines 500--571: module discovery, help on modules, second exit point\<close>

definition help_step :: "init_env \<Rightarrow> init_ctx \<Rightarrow> init_ctx" where
  "help_step e c =
     (case config_GetPsz e ''module'' of
        Some p_tmp \<Rightarrow> exit_with VLC_EEXITSUCCESS (say [Config (Help p_tmp)] c)
      | None \<Rightarrow>
          if config_GetInt e ''longhelp'' \<noteq> 0
          then exit_with VLC_EEXITSUCCESS (say [Config (Help ''longhelp'')] c)
          else if config_GetInt e ''list'' \<noteq> 0
          then exit_with VLC_EEXITSUCCESS (say [Config ListModules] c)
          else c)"

definition reset_config_step :: "init_env \<Rightarrow> init_ctx \<Rightarrow> init_ctx" where
  "reset_config_step e c =
     (if config_GetInt e ''reset-config'' \<noteq> 0
      then say [Module HelpDetach, Config ConfigResetAll, Config (ConfigLoadCmdLine True),
                Config ConfigSaveConfigFile, Module HelpAttach] c
      else c)"

definition save_config_step :: "init_env \<Rightarrow> init_ctx \<Rightarrow> init_ctx" where
  "save_config_step e c =
     (if config_GetInt e ''save-config'' \<noteq> 0
      then say [Module HelpDetach, Config (ConfigLoadConfigFile None),
                Config (ConfigLoadCmdLine True), Config ConfigSaveConfigFile,
                Module HelpAttach] c
      else c)"

definition init_modules :: "build \<Rightarrow> init_env \<Rightarrow> init_ctx \<Rightarrow> flow" where
  "init_modules b e c0 =
     (let c1 = say [Module ModuleLoadBuiltins, Module ModuleLoadPlugins] c0;
          c2 = (if b_die_after_plugins e then c1\<lparr>b_exit := True\<rparr> else c1);
          c3 = say [Msg (MsgDbg ''module bank initialized, found %i modules''),
                    Module HelpAttach] c2;
          c4 = save_config_step e (reset_config_step e (help_step e c3));
          c5 = say [Module HelpDetach] c4
      in if b_exit c5
         then Stop (Ends (Returned (i_ret c5)))
                (end_bank (say [Module ConfigFree, Module HelpModuleDestroy] c5))
         else Go c5)"

subsection \<open>Lines 573--615: configuration file, command line, system configuration\<close>

definition init_config_final :: "build \<Rightarrow> init_env \<Rightarrow> init_ctx \<Rightarrow> flow" where
  "init_config_final b e c0 =
     (let c1 = say [Sys InitDeviceValues, Config (ConfigLoadConfigFile None),
                    Module HelpAttach, Config (ConfigLoadCmdLine False)] c0
      in if cmdline_final e \<noteq> 0
         then
           let c2 = (if WIN32 b
                     then say [Sys (ShowConsole False),
                               Sys (Stderr ''The command line options couldn't be loaded, check that they are valid.''),
                               Sys PauseConsole] c1
                     else c1)
           in Stop (Ends (Returned VLC_EGENERIC))
                (end_bank (say [Module HelpDetach, Module ConfigFree,
                                Module HelpModuleDestroy] c2))
         else Go (say [Module HelpDetach, Module ConfigFree, Module HelpModuleDestroy,
                       Sys SystemConfigure] c1))"

subsection \<open>Lines 617--775: D-Bus, other instances\<close>

text \<open>
  The loop over \<^verbatim>\<open>ppsz_argv[optind .. i_argc - 1]\<close>. Each of its failure branches, and
  the code after it, calls \<^verbatim>\<open>system_End\<close> and then \<^verbatim>\<open>exit( 0 )\<close>: the function gives
  the process up to \<^verbatim>\<open>system_End\<close>, the caller ends it.
\<close>

fun forward_mrls :: "init_env \<Rightarrow> nat \<Rightarrow> string list \<Rightarrow> process \<Rightarrow> process" where
  "forward_mrls e i_input [] w = emit (Sys SystemEnd) w"
| "forward_mrls e i_input (mrl # rest) w0 =
     (let w1 = emit (Msg (MsgDbg ''Give %s to other vlc'')) w0;
          b_play = (config_GetInt e ''playlist-enqueue'' = 0)
      in case dbus_forward e i_input of
           NewCallNull \<Rightarrow>
             emits [Dbus (DbusNewAddMRL False), Msg (MsgErr ''D-Bus problem''),
                    Sys SystemEnd] w1
         | AppendStringFails \<Rightarrow>
             emits [Dbus (DbusNewAddMRL True), Msg (MsgErr ''Out of memory''),
                    Dbus DbusMsgUnref, Sys SystemEnd] w1
         | AppendBoolFails \<Rightarrow>
             emits [Dbus (DbusNewAddMRL True), Msg (MsgErr ''Out of memory''),
                    Dbus DbusMsgUnref, Sys SystemEnd] w1
         | SendFails \<Rightarrow>
             emits [Dbus (DbusNewAddMRL True), Dbus (DbusSend mrl b_play),
                    Msg (MsgErr ''D-Bus problem''), Dbus DbusMsgUnref, Sys SystemEnd] w1
         | PendingNull \<Rightarrow>
             emits [Dbus (DbusNewAddMRL True), Dbus (DbusSend mrl b_play),
                    Msg (MsgErr ''D-Bus problem''), Dbus DbusMsgUnref, Sys SystemEnd] w1
         | Acknowledged \<Rightarrow>
             forward_mrls e (Suc i_input) rest
               (emits [Dbus (DbusNewAddMRL True), Dbus (DbusSend mrl b_play),
                       Dbus DbusFlush, Dbus DbusMsgUnref, Dbus DbusAwaitReply,
                       Dbus DbusPendingUnref] w1))"

definition one_instance_msg :: string where
  "one_instance_msg = ''one instance mode has been set but D-Bus control interface is not enabled. Enable it and restart vlc, or disable one instance mode.''"

definition init_dbus :: "build \<Rightarrow> init_env \<Rightarrow> init_ctx \<Rightarrow> flow" where
  "init_dbus b e c0 =
     (if \<not> HAVE_DBUS_3 b then Go c0
      else if \<not> dbus_bus_get e
      then Go (say [Dbus (DbusBusGet False),
                    Msg (MsgErr ''Failed to connect to the D-Bus session daemon'')] c0)
      else
        let c1 = say [Dbus (DbusBusGet True), Dbus DbusRequestName] c0
        in case dbus_request_name e of
             NameError \<Rightarrow>
               Go (say [Msg (MsgErr ''Error requesting org.videolan.vlc service''),
                        Dbus DbusUnref] c1)
           | NotPrimaryOwner \<Rightarrow>
               if config_GetInt e ''one-instance'' \<noteq> 0
               then
                 if \<not> dbus_probe_reply e
                 then Go (say [Dbus (DbusProbe False), Msg (MsgErr one_instance_msg),
                               Dbus DbusUnref] c1)
                 else
                   let c2 = say [Dbus (DbusProbe True),
                                 Msg (MsgWarn ''Another vlc instance exists: will now exit'')] c1
                   in Stop (Ends (Exited 0))
                        (c2\<lparr>proc := forward_mrls e (optind e)
                                       (drop (optind e) (ppsz_argv e)) (proc c2)\<rparr>)
               else Go (say [Msg (MsgDbg ''org.videolan.vlc is already registered on the session bus''),
                             Dbus DbusUnref] c1)
           | PrimaryOwner \<Rightarrow>
               let c2 = (if \<not> dbus_register_object_path e
                         then say [Dbus (DbusRegisterRoot False),
                                   Msg (MsgErr ''Out of memory'')] c1
                         else say [Dbus (DbusRegisterRoot True)] c1)
               in Go (say [Msg (MsgDbg ''We are the primary owner of org.videolan.vlc on the session bus''),
                           Dbus DbusUnref] c2))"

subsection \<open>Lines 777--866: message queue options, CPU capabilities, memcpy, hotkeys\<close>

definition clear_cap :: "init_env \<Rightarrow> string \<Rightarrow> cpu_capability \<Rightarrow> 32 word \<Rightarrow> 32 word" where
  "clear_cap e opt cap cpu =
     (if config_GetInt e opt = 0 then cpu AND NOT (cpu_mask e cap) else cpu)"

definition cpu_overrides :: "build \<Rightarrow> init_env \<Rightarrow> 32 word \<Rightarrow> 32 word" where
  "cpu_overrides b e cpu0 =
     (let cpu1 = clear_cap e ''fpu'' CAP_FPU cpu0;
          cpu2 = (if ARCH_X86 b
                  then clear_cap e ''sse2'' CAP_SSE2
                         (clear_cap e ''sse'' CAP_SSE
                           (clear_cap e ''mmxext'' CAP_MMXEXT
                             (clear_cap e ''3dn'' CAP_3DNOW
                               (clear_cap e ''mmx'' CAP_MMX cpu1))))
                  else cpu1)
      in if ARCH_PPC b then clear_cap e ''altivec'' CAP_ALTIVEC cpu2 else cpu2)"

text \<open>
  \<^verbatim>\<open>PRINT_CAPABILITY\<close>: the names of the capabilities present, each followed by a
  space. All ten together take 59 of the 200 bytes of the buffer, so \<^verbatim>\<open>strncat\<close>
  never cuts.
\<close>

definition capabilities_string :: "init_env \<Rightarrow> 32 word \<Rightarrow> string" where
  "capabilities_string e cpu =
     concat (map (\<lambda>(cap, name). if cpu AND cpu_mask e cap \<noteq> 0 then name @ '' '' else [])
       [(CAP_486, ''486''), (CAP_586, ''586''), (CAP_PPRO, ''Pentium Pro''),
        (CAP_MMX, ''MMX''), (CAP_3DNOW, ''3DNow!''), (CAP_MMXEXT, ''MMXEXT''),
        (CAP_SSE, ''SSE''), (CAP_SSE2, ''SSE2''), (CAP_ALTIVEC, ''AltiVec''),
        (CAP_FPU, ''FPU'')])"

text \<open>
  The \<^verbatim>\<open>"verbose"\<close> variable is created with the inherited value \<open>verbose_var\<close>, set
  to \<open>-1\<close> under \<^verbatim>\<open>--quiet\<close>, and \<^verbatim>\<open>VLC_VAR_TRIGGER_CALLBACKS\<close> then runs
  \<^verbatim>\<open>VerboseCallback\<close> on its value.
\<close>

definition init_messages :: "build \<Rightarrow> init_env \<Rightarrow> init_ctx \<Rightarrow> flow" where
  "init_messages b e c0 =
     (let c1 = say [Config (VarCreate ''verbose'')] c0;
          quiet = (config_GetInt e ''quiet'' \<noteq> 0);
          val = (if quiet then - 1 else verbose_var e);
          c2 = (if quiet then say [Config (VarSet ''verbose'' (- 1))] c1 else c1);
          c3 = say [Config (VarAddCallback ''verbose''), Config (VarTrigger ''verbose'')] c2;
          c4 = c3\<lparr>vlc := VerboseCallback (vlc c3) val\<rparr>;
          c5 = c4\<lparr>vlc := (vlc c4)\<lparr>b_color := (b_color (vlc c4)
                                           \<and> config_GetInt e ''color'' \<noteq> 0)\<rparr>\<rparr>;
          c6 = say [Msg MsgFlush] c5;
          cpu = cpu_overrides b e (i_cpu (libvlc_global (proc c6)));
          c7 = c6\<lparr>proc := (proc c6)\<lparr>libvlc_global :=
                  (libvlc_global (proc c6))\<lparr>i_cpu := cpu\<rparr>\<rparr>\<rparr>;
          c8 = say [Msg (MsgDbg (''CPU has capabilities '' @ capabilities_string e cpu)),
                    Module (ModuleNeed ''memcpy'' (module_Need_memcpy e \<noteq> None))] c7;
          c9 = c8\<lparr>vlc := (vlc c8)\<lparr>p_memcpy_module := module_Need_memcpy e,
                                   b_stats := (config_GetInt e ''stats'' \<noteq> 0),
                                   p_hotkeys := True\<rparr>\<rparr>
      in Go (say [Config (VarCreate ''key-pressed'')] c9))"

subsection \<open>Lines 868--888: playlist\<close>

definition init_playlist :: "build \<Rightarrow> init_env \<Rightarrow> init_ctx \<Rightarrow> flow" where
  "init_playlist b e c0 =
     (let c1 = (say [Playlist (PlaylistThreadCreate (playlist_ThreadCreate e \<noteq> None))] c0)
                 \<lparr>vlc := (vlc c0)\<lparr>p_playlist := playlist_ThreadCreate e\<rparr>\<rparr>
      in case playlist_ThreadCreate e of
           None \<Rightarrow>
             let c2 = say [Msg (MsgErr ''playlist initialization failed'')] c1;
                 c3 = (if p_memcpy_module (vlc c2) \<noteq> None
                       then say [Module ModuleUnneed] c2 else c2)
             in Stop (Ends (Returned VLC_EGENERIC)) (end_bank c3)
         | Some playlist \<Rightarrow>
             (case config_GetPsz e ''services-discovery'' of
                None \<Rightarrow> Go c1
              | Some psz_modules \<Rightarrow>
                  if psz_modules \<noteq> []
                  then Go (say [Playlist (ServicesDiscoveryAdd psz_modules)] c1)
                  else Go c1))"

subsection \<open>Lines 890--969: background interfaces\<close>

text \<open>The loop that cuts \<^verbatim>\<open>psz_modules\<close> at each colon.\<close>

function split_modules :: "string \<Rightarrow> string list" where
  "split_modules psz_parser =
     (if psz_parser = [] then []
      else
        let psz_module = takeWhile (\<lambda>ch. ch \<noteq> CHR '':'') psz_parser
        in case dropWhile (\<lambda>ch. ch \<noteq> CHR '':'') psz_parser of
             [] \<Rightarrow> [psz_module]
           | colon # rest \<Rightarrow> psz_module # split_modules rest)"
  by pat_completeness auto
termination
proof (relation "measure length")
  show "wf (measure length)"
    by simp
next
  fix psz_parser :: string and psz_module colon rest
  assume "dropWhile (\<lambda>ch. ch \<noteq> CHR '':'') psz_parser = colon # rest"
  then have "length (colon # rest) \<le> length psz_parser"
    using length_dropWhile_le [of "\<lambda>ch. ch \<noteq> CHR '':''" psz_parser] by simp
  then show "(rest, psz_parser) \<in> measure length"
    by simp
qed

definition nonempty :: "string option \<Rightarrow> bool" where
  "nonempty psz = (case psz of None \<Rightarrow> False | Some s \<Rightarrow> s \<noteq> [])"

text \<open>
  When both \<^verbatim>\<open>extraintf\<close> and \<^verbatim>\<open>control\<close> are set, lines 898--900 enlarge the buffer to
  \<^verbatim>\<open>strlen( psz_modules ) + strlen( psz_control ) + 1\<close> bytes, one less than the joined
  string and its terminator need, and call
  \<^verbatim>\<open>sprintf( psz_modules, "%s:%s", psz_modules, psz_control )\<close> with the destination as
  one of the sources. C leaves the result of that call open, so the model takes it from
  the environment: \<open>sprintf_joined\<close> is what the buffer holds afterwards, \<open>None\<close> when
  the call does not come back. The result is \<open>None\<close> in that case, the list of module
  names otherwise.
\<close>

definition extra_interfaces :: "init_env \<Rightarrow> string list option" where
  "extra_interfaces e =
     (let psz_modules = config_GetPsz e ''extraintf'';
          psz_control = config_GetPsz e ''control''
      in if nonempty psz_modules \<and> nonempty psz_control
         then map_option split_modules (sprintf_joined e)
         else if nonempty psz_control then map_option split_modules psz_control
         else (case psz_modules of None \<Rightarrow> Some [] | Some s \<Rightarrow> Some (split_modules s)))"

definition add_intf_if :: "bool \<Rightarrow> string \<Rightarrow> init_ctx \<Rightarrow> init_ctx" where
  "add_intf_if cond name c = (if cond then say [Playlist (AddIntf name [])] c else c)"

text \<open>
  With \<^verbatim>\<open>HAVE_SYSLOG_H\<close> and \<^verbatim>\<open>--syslog\<close> the function calls
  \<^verbatim>\<open>libvlc_InternalAddIntf( 0, "logger,none", ... )\<close>, whose first statement outside
  \<^verbatim>\<open>WIN32\<close> reads \<^verbatim>\<open>p_libvlc->p_libvlc_global\<close> through that null pointer.
\<close>

definition init_interfaces :: "build \<Rightarrow> init_env \<Rightarrow> init_ctx \<Rightarrow> flow" where
  "init_interfaces b e c0 =
     (case extra_interfaces e of
        None \<Rightarrow> Stop Fault c0
      | Some modules \<Rightarrow>
     (let c1 = say (map (\<lambda>psz_module. Playlist (AddIntf (psz_module @ '',none'') []))
                      modules) c0;
          c2 = say [Playlist (AddIntf ''hotkeys,none'' [])] c1;
          c3 = add_intf_if (HAVE_X11_XLIB_H b \<and> config_GetInt e ''disable-screensaver'' = 1)
                 ''screensaver,none'' c2;
          c4 = add_intf_if (config_GetInt e ''file-logging'' = 1) ''logger,none'' c3;
          rest = (\<lambda>c. Go (add_intf_if (config_GetInt e ''network-synchronisation'' = 1)
                             ''netsync,none''
                            (add_intf_if (config_GetInt e ''show-intf'' = 1)
                               ''showintf,none'' c)))
      in if HAVE_SYSLOG_H b \<and> config_GetInt e ''syslog'' = 1
         then if WIN32 b
              then rest (say [Playlist (AddIntf ''logger,none'' [''logmode=syslog''])] c4)
              else Stop Fault c4
         else rest c4))"

subsection \<open>Lines 971--1004: variables, input files\<close>

text \<open>
  \<^verbatim>\<open>GetFilenames\<close>: the \<^verbatim>\<open>for\<close> loop walks \<^verbatim>\<open>i_opt\<close> down from \<^verbatim>\<open>i_argc - 1\<close> to
  \<^verbatim>\<open>optind\<close>; its inner \<^verbatim>\<open>while\<close> steps over arguments that start with a colon,
  counting them in \<^verbatim>\<open>i_options\<close>. Both loops decrement the same \<^verbatim>\<open>i_opt\<close>, so they
  are one recursion on it.
\<close>

definition starts_with_colon :: "string \<Rightarrow> bool" where
  "starts_with_colon s = (case s of [] \<Rightarrow> False | ch # _ \<Rightarrow> ch = CHR '':'')"

function GetFilenames_from :: "string list \<Rightarrow> int \<Rightarrow> int \<Rightarrow> nat \<Rightarrow> action list" where
  "GetFilenames_from argv opt_ind i_opt i_options =
     (if i_opt < opt_ind \<or> i_opt < 0 then []
      else if starts_with_colon (argv ! nat i_opt) \<and> i_opt > opt_ind
      then GetFilenames_from argv opt_ind (i_opt - 1) (Suc i_options)
      else Playlist (AddTarget (argv ! nat i_opt)
                       (take i_options (drop (nat i_opt + 1) argv)))
           # GetFilenames_from argv opt_ind (i_opt - 1) 0)"
  by pat_completeness auto
termination
  by (relation "measure (\<lambda>(argv, opt_ind, i_opt, i_options). nat (i_opt + 1))") auto

definition GetFilenames :: "init_env \<Rightarrow> action list" where
  "GetFilenames e =
     GetFilenames_from (ppsz_argv e) (int (optind e)) (int (length (ppsz_argv e)) - 1) 0"

definition init_targets :: "build \<Rightarrow> init_env \<Rightarrow> init_ctx \<Rightarrow> flow" where
  "init_targets b e c0 =
     (let c1 = say (map (\<lambda>v. Config (VarCreate v))
                      [''drawable'', ''drawable-view-top'', ''drawable-view-left'',
                       ''drawable-view-bottom'', ''drawable-view-right'',
                       ''drawable-clip-top'', ''drawable-clip-left'',
                       ''drawable-clip-bottom'', ''drawable-clip-right'',
                       ''volume-change'']) c0;
          c2 = say (GetFilenames e) c1;
          c3 = say [Config (VarCreate ''open'')] c2;
          c4 = (case open_var e of
                  None \<Rightarrow> c3
                | Some psz \<Rightarrow> if psz \<noteq> [] then say [Playlist (AddTarget psz [])] c3 else c3)
      in Stop (Ends (Returned VLC_SUCCESS)) c4)"

subsection \<open>The whole of \<^verbatim>\<open>libvlc_InternalInit\<close>\<close>

definition init_ctx_of :: "libvlc_int_t \<Rightarrow> process \<Rightarrow> init_ctx" where
  "init_ctx_of p_libvlc w = \<lparr>proc = w, vlc = p_libvlc, b_exit = False, i_ret = VLC_EEXIT\<rparr>"

definition init_before_language :: "build \<Rightarrow> init_env \<Rightarrow> init_ctx \<Rightarrow> flow" where
  "init_before_language b e c =
     andthen (andthen (andthen
       (init_startup b e c)
       (init_cmdline_first b e))
       (init_config_paths b e))
       (init_daemon b e)"

definition init_bootstrap :: "build \<Rightarrow> init_env \<Rightarrow> init_ctx \<Rightarrow> flow" where
  "init_bootstrap b e c =
     andthen (andthen (andthen
       (init_before_language b e c)
       (init_language b e))
       (init_modules b e))
       (init_config_final b e)"

text \<open>The steps after the D-Bus check, up to the \<^verbatim>\<open>return VLC_SUCCESS\<close> that ends the function.\<close>

definition init_running :: "build \<Rightarrow> init_env \<Rightarrow> init_ctx \<Rightarrow> flow" where
  "init_running b e c =
     andthen (andthen (andthen
       (init_messages b e c)
       (init_playlist b e))
       (init_interfaces b e))
       (init_targets b e)"

definition libvlc_InternalInit :: "build \<Rightarrow> init_env \<Rightarrow> libvlc_int_t \<Rightarrow> process \<Rightarrow> flow" where
  "libvlc_InternalInit b e p_libvlc w =
     andthen (andthen
       (init_bootstrap b e (init_ctx_of p_libvlc w))
       (init_dbus b e))
       (init_running b e)"

subsection \<open>Reading a trace\<close>

text \<open>
  The calls that forward one item and wait for its acknowledgment; the diagnostics
  (\<^verbatim>\<open>msg_Err\<close> texts) of a trace; whether \<^verbatim>\<open>playlist_ThreadCreate\<close> was called; the
  items sent to the other instance, each with its \<^verbatim>\<open>b_play\<close> flag; the diagnostic of a
  failed forwarding.
\<close>

definition forward_calls :: "bool \<Rightarrow> string \<Rightarrow> action list" where
  "forward_calls b_play mrl =
     [Msg (MsgDbg ''Give %s to other vlc''), Dbus (DbusNewAddMRL True),
      Dbus (DbusSend mrl b_play), Dbus DbusFlush, Dbus DbusMsgUnref, Dbus DbusAwaitReply,
      Dbus DbusPendingUnref]"

fun diagnostics :: "action list \<Rightarrow> string list" where
  "diagnostics [] = []"
| "diagnostics (Msg (MsgErr m) # tr) = m # diagnostics tr"
| "diagnostics (a # tr) = diagnostics tr"

fun playlist_created :: "action list \<Rightarrow> bool" where
  "playlist_created [] = False"
| "playlist_created (Playlist (PlaylistThreadCreate ok) # tr) = True"
| "playlist_created (a # tr) = playlist_created tr"

fun sends :: "action list \<Rightarrow> (string \<times> bool) list" where
  "sends [] = []"
| "sends (Dbus (DbusSend mrl b_play) # tr) = (mrl, b_play) # sends tr"
| "sends (a # tr) = sends tr"


text \<open>
  The resources the bootstrap holds, in the order in which its steps acquire them: the
  module bank (\<^verbatim>\<open>module_InitBank\<close>), the help module object, its configuration
  (\<^verbatim>\<open>config_Duplicate\<close>), its attachment to the bank, and the memcpy module
  (\<^verbatim>\<open>module_Need\<close>). Each has the call that acquires it and the call that gives it
  back.
\<close>

datatype resource = RBank | RHelpObject | RHelpConfig | RHelpAttach | RMemcpy

definition bootstrap_order :: "resource list" where
  "bootstrap_order = [RBank, RHelpObject, RHelpConfig, RHelpAttach, RMemcpy]"

fun acquires :: "action \<Rightarrow> resource option" where
  "acquires (Module ModuleInitBank) = Some RBank"
| "acquires (Module (HelpModuleCreate True)) = Some RHelpObject"
| "acquires (Module ConfigDuplicate) = Some RHelpConfig"
| "acquires (Module HelpAttach) = Some RHelpAttach"
| "acquires (Module (ModuleNeed name True)) = Some RMemcpy"
| "acquires a = None"

fun releases :: "action \<Rightarrow> resource option" where
  "releases (Module ModuleEndBank) = Some RBank"
| "releases (Module HelpModuleDestroy) = Some RHelpObject"
| "releases (Module ConfigFree) = Some RHelpConfig"
| "releases (Module HelpDetach) = Some RHelpAttach"
| "releases (Module ModuleUnneed) = Some RMemcpy"
| "releases a = None"

fun release_call :: "resource \<Rightarrow> action" where
  "release_call RBank = Module ModuleEndBank"
| "release_call RHelpObject = Module HelpModuleDestroy"
| "release_call RHelpConfig = Module ConfigFree"
| "release_call RHelpAttach = Module HelpDetach"
| "release_call RMemcpy = Module ModuleUnneed"

text \<open>
  \<open>held tr\<close>: the resources held after the calls of \<open>tr\<close>, in the order in which \<open>tr\<close>
  acquired them: an acquiring call puts its resource at the end, a releasing call takes
  its resource out. \<open>in_bootstrap_order H\<close>: the same resources, listed in the order of
  the bootstrap steps. \<open>unwind_part tr\<close>: the releasing calls that end \<open>tr\<close>;
  \<open>forward_part tr\<close>: what comes before them. \<open>unwind_of H\<close>: the releases of \<open>H\<close>,
  last first. \<open>calls_since tr0 tr\<close>: the calls of \<open>tr\<close> after its first
  \<open>length tr0\<close> ones, which are the calls one run of a function has added when \<open>tr0\<close>
  was the trace at its start.
\<close>

definition held_step :: "resource list \<Rightarrow> action \<Rightarrow> resource list" where
  "held_step H a =
     (case acquires a of
        Some r \<Rightarrow> (if r \<in> set H then H else H @ [r])
      | None \<Rightarrow> (case releases a of Some r \<Rightarrow> removeAll r H | None \<Rightarrow> H))"

definition in_bootstrap_order :: "resource list \<Rightarrow> resource list" where
  "in_bootstrap_order H = filter (\<lambda>r. r \<in> set H) bootstrap_order"

definition calls_since :: "action list \<Rightarrow> action list \<Rightarrow> action list" where
  "calls_since tr0 tr = drop (length tr0) tr"

definition held :: "action list \<Rightarrow> resource list" where
  "held tr = foldl held_step [] tr"

definition is_release :: "action \<Rightarrow> bool" where
  "is_release a = (releases a \<noteq> None)"

definition forward_part :: "action list \<Rightarrow> action list" where
  "forward_part tr = rev (dropWhile is_release (rev tr))"

definition unwind_part :: "action list \<Rightarrow> action list" where
  "unwind_part tr = rev (takeWhile is_release (rev tr))"

definition unwind_of :: "resource list \<Rightarrow> action list" where
  "unwind_of H = map release_call (rev H)"

text \<open>
  The calls after the last acquisition of a trace, and the calls of
  \<^verbatim>\<open>libvlc_InternalInit\<close> whose failure makes it return \<^verbatim>\<open>VLC_EGENERIC\<close>: the
  creation of the help module, the two checked readings of the command line, the
  creation of the playlist.
\<close>

definition after_last_acquire :: "action list \<Rightarrow> action list" where
  "after_last_acquire tr = rev (takeWhile (\<lambda>a. acquires a = None) (rev tr))"

fun fails :: "init_env \<Rightarrow> action \<Rightarrow> bool" where
  "fails e (Module (HelpModuleCreate ok)) = (\<not> ok)"
| "fails e (Config (ConfigLoadCmdLine b_ignore_errors)) =
     (if b_ignore_errors then cmdline_first e \<noteq> 0 else cmdline_final e \<noteq> 0)"
| "fails e (Playlist (PlaylistThreadCreate ok)) = (\<not> ok)"
| "fails e a = False"

text \<open>
  How often \<^verbatim>\<open>module_InitBank\<close> was called, and the condition under which lines
  470--497 end the module bank and initialise it again.
\<close>

definition reloads :: "build \<Rightarrow> init_env \<Rightarrow> bool" where
  "reloads b e =
     (NLS_GETTEXT b \<and> (WIN32 b \<or> APPLE b)
      \<and> (case config_GetPsz e ''language'' of
            None \<Rightarrow> False | Some l \<Rightarrow> l \<noteq> [] \<and> l \<noteq> ''auto''))"


definition bank_inits :: "action list \<Rightarrow> nat" where
  "bank_inits tr = length (filter (\<lambda>a. a = Module ModuleInitBank) tr)"


definition teardown_pair :: "action list" where
  "teardown_pair = [Sys SystemEnd, Sys LocaleDeinit]"

subsection \<open>Concrete inputs\<close>

definition build_linux :: build where
  "build_linux =
     \<lparr>WIN32 = False, APPLE = False, HAVE_ISATTY = True, HAVE_DAEMON = True,
      NLS_GETTEXT = True, HAVE_DBUS_3 = True, HAVE_X11_XLIB_H = True,
      HAVE_SYSLOG_H = False, HAVE_HAL = False, ARCH_X86 = True, ARCH_PPC = False,
      LP64 = True\<rparr>"

definition create_ok :: "nat \<Rightarrow> create_env" where
  "create_ok oid =
     \<lparr>vlc_threads_init = 0, CPUCapabilities = 0, vlc_object_create = Some oid,
      getenv_VLC_VERBOSE = None, isatty_stderr = False\<rparr>"

definition created_process :: process where
  "created_process = fst (libvlc_InternalCreate build_linux (create_ok 1) process_start)"

definition created_instance :: libvlc_int_t where
  "created_instance = the (snd (libvlc_InternalCreate build_linux (create_ok 1) process_start))"

definition env_plain :: init_env where
  "env_plain =
     \<lparr>ppsz_argv = [''vlc'', ''a.mp4'', ''b.mp4''], optind = 1,
      help_module_create = True, cmdline_first = 0, cmdline_final = 0,
      config_GetInt = (\<lambda>name. 0), config_GetPsz = (\<lambda>name. None),
      config_GetHomeDir = Some ''/home/u'', config_GetUserDir = Some ''/home/u/.vlc'',
      daemon_ret = 0, fork_ret = 0, pidfile_open = True, b_die_after_plugins = False,
      dbus_bus_get = True, dbus_request_name = PrimaryOwner, dbus_probe_reply = True,
      dbus_forward = (\<lambda>i. Acknowledged), dbus_register_object_path = True,
      verbose_var = 0, cpu_mask = (\<lambda>cap. 0), module_Need_memcpy = Some 7,
      playlist_ThreadCreate = Some 9, sprintf_joined = None, open_var = None\<rparr>"

definition intf_env_plain :: intf_env where
  "intf_env_plain = \<lparr>config_intf = None, intf_Create = Some (5, False), intf_RunThread = 0\<rparr>"

definition busy_instance :: libvlc_int_t where
  "busy_instance =
     created_instance\<lparr>p_playlist := Some 6,
       children := [(VLC_OBJECT_INTF, 1), (VLC_OBJECT_VOUT, 2), (VLC_OBJECT_INTF, 3),
                    (VLC_OBJECT_AOUT, 4), (VLC_OBJECT_ANNOUNCE, 5),
                    (VLC_OBJECT_PLAYLIST, 6)]\<rparr>"

definition calls_nested :: "api_call list" where
  "calls_nested = [CallCreate (create_ok 1), CallCreate (create_ok 2), CallDestroy 0 False,
                   CallDestroy 0 True]"

definition calls_in_turn :: "api_call list" where
  "calls_in_turn = [CallCreate (create_ok 1), CallDestroy 0 False,
                    CallCreate (create_ok 2), CallDestroy 0 False]"

definition build_win32 :: build where
  "build_win32 =
     \<lparr>WIN32 = True, APPLE = False, HAVE_ISATTY = False, HAVE_DAEMON = False,
      NLS_GETTEXT = True, HAVE_DBUS_3 = False, HAVE_X11_XLIB_H = False,
      HAVE_SYSLOG_H = False, HAVE_HAL = False, ARCH_X86 = True, ARCH_PPC = False,
      LP64 = False\<rparr>"

definition env_french :: init_env where
  "env_french =
     env_plain\<lparr>config_GetPsz := (\<lambda>name. if name = ''language'' then Some ''fr'' else None),
               config_GetInt := (\<lambda>name. if name = ''reset-plugins-cache'' then 1 else 0)\<rparr>"

definition env_late_failure :: init_env where
  "env_late_failure = env_plain\<lparr>cmdline_final := 1\<rparr>"

definition env_french_late_failure :: init_env where
  "env_french_late_failure = env_french\<lparr>cmdline_final := 1\<rparr>"

definition env_no_playlist :: init_env where
  "env_no_playlist = env_plain\<lparr>playlist_ThreadCreate := None\<rparr>"

definition env_peer :: init_env where
  "env_peer =
     env_plain\<lparr>dbus_request_name := NotPrimaryOwner,
               config_GetInt := (\<lambda>name. if name = ''one-instance'' then 1 else 0)\<rparr>"

definition env_option :: init_env where
  "env_option = env_peer\<lparr>ppsz_argv := [''vlc'', ''a.mp4'', '':start-time=10'']\<rparr>"



text \<open>The state a step leaves behind, and how it left.\<close>

fun ctx_of :: "flow \<Rightarrow> init_ctx" where
  "ctx_of (Stop out c) = c"
| "ctx_of (Go c) = c"

fun ending_of :: "flow \<Rightarrow> ending option" where
  "ending_of (Stop out c) = Some out"
| "ending_of (Go c) = None"

definition post :: "(init_ctx \<Rightarrow> bool) \<Rightarrow> (ending \<Rightarrow> init_ctx \<Rightarrow> bool) \<Rightarrow> flow \<Rightarrow> bool" where
  "post Q R fl = (case fl of Go c \<Rightarrow> Q c | Stop x c \<Rightarrow> R x c)"

definition trace_of :: "flow \<Rightarrow> action list" where
  "trace_of fl = trace (proc (ctx_of fl))"

text \<open>The process after a first instance has been created and initialised.\<close>

definition running_process :: process where
  "running_process =
     proc (ctx_of (libvlc_InternalInit build_linux env_plain created_instance created_process))"

subsection \<open>Invariants of the steps\<close>

text \<open>
  Predicates on the state between two steps of \<^verbatim>\<open>libvlc_InternalInit\<close>, used to carry
  a property through the sequence of steps. \<open>summary tr\<close> collects what the unwinding
  statement needs of a trace: what is held, what was held before the trailing releases,
  and those releases; \<open>analyse\<close> updates it for one more call.
\<close>

definition frame :: "bool \<Rightarrow> nat option \<Rightarrow> init_ctx \<Rightarrow> bool" where
  "frame pc pp c = (playlist_created (trace (proc c)) = pc \<and> p_playlist (vlc c) = pp)"



definition summary :: "action list \<Rightarrow> resource list \<times> resource list \<times> action list" where
  "summary tr = (held tr, held (forward_part tr), unwind_part tr)"

fun analyse :: "resource list \<times> resource list \<times> action list \<Rightarrow> action
    \<Rightarrow> resource list \<times> resource list \<times> action list" where
  "analyse (H, HF, us) a =
     (if is_release a then (held_step H a, HF, us @ [a])
      else (held_step H a, held_step H a, []))"

definition failed_since :: "init_env \<Rightarrow> action list \<Rightarrow> bool" where
  "failed_since e tr = list_ex (fails e) (after_last_acquire tr)"

definition unwound :: "action list \<Rightarrow> bool" where
  "unwound tr = (unwind_part tr = unwind_of (held (forward_part tr)))"

definition unwound_fixed :: "action list \<Rightarrow> bool" where
  "unwound_fixed tr
     = (unwind_part tr = unwind_of (in_bootstrap_order (held (forward_part tr))))"

definition returns_unwound ::
  "build \<Rightarrow> init_env \<Rightarrow> action list \<Rightarrow> ending \<Rightarrow> init_ctx \<Rightarrow> bool" where
  "returns_unwound b e tr0 x c =
     (\<forall>rc. x = Ends (Returned rc) \<and> rc \<noteq> VLC_SUCCESS \<longrightarrow>
        prefix tr0 (trace (proc c))
        \<and> unwound_fixed (calls_since tr0 (trace (proc c)))
        \<and> (\<not> reloads b e \<longrightarrow> unwound (calls_since tr0 (trace (proc c))))
        \<and> (rc = VLC_EGENERIC \<longrightarrow> failed_since e (calls_since tr0 (trace (proc c)))))"

definition holds_in ::
  "action list \<Rightarrow> (resource list \<times> resource list \<times> action list) set \<Rightarrow> init_ctx \<Rightarrow> bool" where
  "holds_in tr0 S c =
     (prefix tr0 (trace (proc c))
      \<and> summary (calls_since tr0 (trace (proc c))) \<in> S
      \<and> (i_ret c = VLC_EEXIT \<or> i_ret c = VLC_EEXITSUCCESS))"

abbreviation "help_attached \<equiv> [RBank, RHelpObject, RHelpConfig, RHelpAttach]"
abbreviation "help_detached \<equiv> [RBank, RHelpObject, RHelpConfig]"
abbreviation "reloaded_attached \<equiv> [RHelpObject, RHelpConfig, RBank, RHelpAttach]"
abbreviation "reloaded_detached \<equiv> [RHelpObject, RHelpConfig, RBank]"

definition with_memcpy :: "action list \<Rightarrow> init_ctx \<Rightarrow> bool" where
  "with_memcpy tr0 c =
     (prefix tr0 (trace (proc c))
      \<and> summary (calls_since tr0 (trace (proc c)))
        = (if p_memcpy_module (vlc c) \<noteq> None
           then ([RBank, RMemcpy], [RBank, RMemcpy], [])
           else ([RBank], [RBank], [])))"

definition dinv :: "build \<Rightarrow> bool \<Rightarrow> init_ctx \<Rightarrow> bool" where
  "dinv b d c = (WIN32 b \<longrightarrow> b_daemon (libvlc_global (proc c)) = d)"

section \<open>Properties\<close>

subsection \<open>Verbosity\<close>

lemma create_verbose:
  "libvlc_InternalCreate b e w = (w', Some p) \<Longrightarrow>
   i_verbose p = (case getenv_VLC_VERBOSE e of Some psz_env \<Rightarrow> atoi b psz_env | None \<Rightarrow> - 1)"
  by (auto simp: libvlc_InternalCreate_def Let_def split: if_splits option.splits)

lemma sint_vlc_MIN: "sint (vlc_MIN a 2) = min (sint a) 2"
  by (simp add: vlc_MIN_def)

text \<open>
  C8, as stated, fails: with \<^verbatim>\<open>VLC_VERBOSE=5\<close> in the environment the instance that
  \<^verbatim>\<open>libvlc_InternalCreate\<close> returns has verbosity 5, outside \<open>-1..2\<close>.
\<close>

theorem verbosity_range_counterexample:
  "map_option (sint \<circ> i_verbose)
     (snd (libvlc_InternalCreate build_linux
             ((create_ok 1)\<lparr>getenv_VLC_VERBOSE := Some ''5''\<rparr>) process_start)) = Some 5"
  by (simp add: libvlc_InternalCreate_def create_ok_def build_linux_def Let_def atoi_def
      strtol_def decimal_value_def isspace_def isdigit_def)

text \<open>
  C8, amended: \<^verbatim>\<open>libvlc_InternalCreate\<close> sets the verbosity to
  \<^verbatim>\<open>atoi(VLC_VERBOSE)\<close>, unclamped, when the variable is set and to \<open>-1\<close> otherwise;
  \<^verbatim>\<open>VerboseCallback\<close> stores \<open>min new 2\<close>, a value in \<open>-1..2\<close>, when
  \<open>new \<ge> -1\<close> and leaves the field unchanged when \<open>new < -1\<close>; so the callback keeps
  a verbosity that is in \<open>-1..2\<close> in that range. All values are 32-bit \<^verbatim>\<open>int\<close>s.
\<close>

theorem verbosity_create_and_callback:
  "(libvlc_InternalCreate b e w = (w', Some p) \<longrightarrow>
      i_verbose p
        = (case getenv_VLC_VERBOSE e of Some psz_env \<Rightarrow> atoi b psz_env | None \<Rightarrow> - 1))
   \<and> (- 1 \<le> sint new_val \<longrightarrow>
        sint (i_verbose (VerboseCallback q new_val)) = min (sint new_val) 2
        \<and> - 1 \<le> sint (i_verbose (VerboseCallback q new_val))
        \<and> sint (i_verbose (VerboseCallback q new_val)) \<le> 2)
   \<and> (sint new_val < - 1 \<longrightarrow> VerboseCallback q new_val = q)
   \<and> (- 1 \<le> sint (i_verbose q) \<and> sint (i_verbose q) \<le> 2 \<longrightarrow>
        - 1 \<le> sint (i_verbose (VerboseCallback q new_val))
        \<and> sint (i_verbose (VerboseCallback q new_val)) \<le> 2)"
  using create_verbose [of b e w w' p]
  by (auto simp: VerboseCallback_def sint_vlc_MIN)

text \<open>
  Without \<^verbatim>\<open>VLC_VERBOSE\<close> the verbosity is \<open>-1\<close>; with \<^verbatim>\<open>VLC_VERBOSE=2147483648\<close> on
  a build whose \<^verbatim>\<open>long\<close> has 64 bits the \<^verbatim>\<open>int\<close> stored is \<open>-2147483648\<close>; the callback
  turns 7 into 2 and ignores \<open>-3\<close>.
\<close>

theorem verbosity_create_and_callback_witness:
  "snd (libvlc_InternalCreate build_linux (create_ok 1) process_start) \<noteq> None
   \<and> i_verbose (the (snd (libvlc_InternalCreate build_linux (create_ok 1) process_start))) = - 1
   \<and> sint (i_verbose (the (snd (libvlc_InternalCreate build_linux
               ((create_ok 1)\<lparr>getenv_VLC_VERBOSE := Some ''2147483648''\<rparr>) process_start))))
       = - 2147483648
   \<and> i_verbose (VerboseCallback
         (the (snd (libvlc_InternalCreate build_linux (create_ok 1) process_start))) 7) = 2
   \<and> VerboseCallback
         (the (snd (libvlc_InternalCreate build_linux (create_ok 1) process_start))) (- 3)
       = the (snd (libvlc_InternalCreate build_linux (create_ok 1) process_start))"
proof -
  obtain w' p where cr: "libvlc_InternalCreate build_linux (create_ok 1) process_start = (w', Some p)"
    by (simp add: libvlc_InternalCreate_def create_ok_def Let_def)
  obtain w2 p2 where cr2: "libvlc_InternalCreate build_linux
      ((create_ok 1)\<lparr>getenv_VLC_VERBOSE := Some ''2147483648''\<rparr>) process_start = (w2, Some p2)"
    by (simp add: libvlc_InternalCreate_def create_ok_def Let_def)
  have none: "getenv_VLC_VERBOSE (create_ok 1) = None"
    by (simp add: create_ok_def)
  have wraps: "sint (atoi build_linux ''2147483648'') = - 2147483648"
    by code_simp
  have seven: "- 1 \<le> sint (7 :: 32 word)" "min (sint (7 :: 32 word)) 2 = sint (2 :: 32 word)"
    and three: "sint (- 3 :: 32 word) < - 1"
    by simp_all
  note a = verbosity_create_and_callback [of build_linux "create_ok 1" process_start w' p 7 p]
  note b = verbosity_create_and_callback [of build_linux "create_ok 1" process_start w' p "- 3" p]
  note c = verbosity_create_and_callback [of build_linux
      "(create_ok 1)\<lparr>getenv_VLC_VERBOSE := Some ''2147483648''\<rparr>" process_start w2 p2 0 p2,
      THEN conjunct1, rule_format, OF cr2]
  have "i_verbose p = - 1"
    using a cr none by simp
  moreover have "sint (i_verbose p2) = - 2147483648"
    using c wraps by simp
  moreover have "sint (i_verbose (VerboseCallback p 7)) = sint (2 :: 32 word)"
    using a seven by simp
  then have "i_verbose (VerboseCallback p 7) = 2"
    by (simp only: signed_word_eqI)
  moreover have "VerboseCallback p (- 3) = p"
    using b three by blast
  ultimately show ?thesis
    using cr cr2 by simp
qed

subsection \<open>Projections of the helper updates\<close>

lemma say_simps [simp]:
  "vlc (say as c) = vlc c" "b_exit (say as c) = b_exit c" "i_ret (say as c) = i_ret c"
  "trace (proc (say as c)) = trace (proc c) @ as"
  "libvlc_global (proc (say as c)) = libvlc_global (proc c)"
  "i_instances (proc (say as c)) = i_instances (proc c)"
  by (simp_all add: say_def emits_def)

lemma set_cache_delete_simps [simp]:
  "vlc (set_cache_delete v c) = vlc c" "b_exit (set_cache_delete v c) = b_exit c"
  "i_ret (set_cache_delete v c) = i_ret c"
  "trace (proc (set_cache_delete v c)) = trace (proc c)"
  "b_daemon (libvlc_global (proc (set_cache_delete v c))) = b_daemon (libvlc_global (proc c))"
  by (simp_all add: set_cache_delete_def)

subsection \<open>The configuration file path\<close>

lemma resolve_other: "\<not> prefix ''~/'' s \<Longrightarrow> resolve_configfile ud (Some s) = Some s"
  by (auto simp: resolve_configfile_def split: list.splits)

lemma config_paths_go:
  assumes "(case config_GetUserDir e of Some u \<Rightarrow> Some u | None \<Rightarrow> config_GetHomeDir e) = Some userdir"
  shows "ending_of (init_config_paths b e c) = None"
    and "psz_userdir (vlc (ctx_of (init_config_paths b e c))) = Some userdir"
    and "psz_configfile (vlc (ctx_of (init_config_paths b e c)))
          = resolve_configfile userdir (config_GetPsz e ''config'')"
  using assms by (simp_all add: init_config_paths_def Let_def)

text \<open>
  C4: when the user directory resolves to \<open>userdir\<close> (the configured one, or else the
  home directory), the step that sets the configuration paths goes on, and a configured
  path \<open>~/rest\<close> is stored as \<open>userdir/rest\<close>, while a path that does not begin with
  \<open>~/\<close> is stored unchanged.
\<close>

theorem configfile_tilde_rewrite:
  assumes "(case config_GetUserDir e of Some u \<Rightarrow> Some u | None \<Rightarrow> config_GetHomeDir e)
             = Some userdir"
    and "config_GetPsz e ''config'' = Some value"
  shows "ending_of (init_config_paths b e c) = None
     \<and> psz_userdir (vlc (ctx_of (init_config_paths b e c))) = Some userdir
     \<and> (\<forall>rest. value = ''~/'' @ rest \<longrightarrow>
          psz_configfile (vlc (ctx_of (init_config_paths b e c)))
            = Some (userdir @ ''/'' @ rest))
     \<and> (\<not> prefix ''~/'' value \<longrightarrow>
          psz_configfile (vlc (ctx_of (init_config_paths b e c))) = Some value)"
  using config_paths_go [OF assms(1), of b c] assms(2) resolve_other [of "value" userdir]
  by (auto simp: resolve_configfile_def)

theorem configfile_tilde_rewrite_witness:
  "psz_configfile (vlc (ctx_of (init_config_paths build_linux
       (env_plain\<lparr>config_GetPsz := (\<lambda>name. Some ''~/foo/bar'')\<rparr>)
       (init_ctx_of created_instance created_process))))
     = Some ''/home/u/.vlc/foo/bar''
   \<and> psz_configfile (vlc (ctx_of (init_config_paths build_linux
       (env_plain\<lparr>config_GetPsz := (\<lambda>name. Some ''/etc/vlcrc'')\<rparr>)
       (init_ctx_of created_instance created_process))))
     = Some ''/etc/vlcrc''"
  using configfile_tilde_rewrite [of "env_plain\<lparr>config_GetPsz := (\<lambda>name. Some ''~/foo/bar'')\<rparr>"
      "''/home/u/.vlc''" "''~/foo/bar''" build_linux
      "init_ctx_of created_instance created_process"]
    configfile_tilde_rewrite [of "env_plain\<lparr>config_GetPsz := (\<lambda>name. Some ''/etc/vlcrc'')\<rparr>"
      "''/home/u/.vlc''" "''/etc/vlcrc''" build_linux
      "init_ctx_of created_instance created_process"]
  by (simp add: env_plain_def)

subsection \<open>The interface module chosen by \<^verbatim>\<open>libvlc_InternalAddIntf\<close>\<close>

lemma intf_module_name_eq:
  assumes "WIN32 b \<longrightarrow> \<not> b_daemon g"
  shows "intf_module_name b e g psz_module b_block
         = (if b_daemon g \<and> b_block \<and> psz_module = None
               \<and> (config_intf e = None \<or> config_intf e = Some [])
            then ''dummy''
            else (case psz_module of Some m \<Rightarrow> m | None \<Rightarrow> ''$intf''))"
proof (cases "config_intf e")
  case None
  with assms show ?thesis by (simp add: intf_module_name_def)
next
  case (Some psz_interface)
  with assms show ?thesis by (simp add: intf_module_name_def)
qed

lemma add_intf_first_call:
  "trace (fst (libvlc_InternalAddIntf b e p_libvlc psz_module b_block b_play opts w))
     ! length (trace w)
   = Object (IntfCreate (intf_module_name b e (libvlc_global w) psz_module b_block) opts
       (intf_Create e \<noteq> None))"
proof (cases "intf_Create e")
  case None
  then show ?thesis
    by (simp add: libvlc_InternalAddIntf_def emits_def)
next
  case (Some created)
  obtain i intf_b_play where "created = (i, intf_b_play)"
    by (cases created)
  with Some show ?thesis
    by (simp add: libvlc_InternalAddIntf_def Let_def emit_def emits_def nth_append)
qed

text \<open>
  C10: the first call \<^verbatim>\<open>libvlc_InternalAddIntf\<close> makes is \<^verbatim>\<open>intf_Create\<close>, and the
  module it names is \<^verbatim>\<open>"dummy"\<close> when the daemon flag is set, blocking is requested, no
  module is given and the \<^verbatim>\<open>"intf"\<close> option is unset or empty; otherwise it is the
  module given, or \<^verbatim>\<open>"$intf"\<close> (the configured default) when none is. The daemon flag
  is only ever set outside \<^verbatim>\<open>WIN32\<close> (lemma \<open>init_keeps_daemon_flag_off_on_win32\<close>
  below), where the daemon hack is compiled in; this is the hypothesis.
\<close>

theorem daemon_prefers_dummy:
  assumes "WIN32 b \<longrightarrow> \<not> b_daemon (libvlc_global w)"
  shows "trace (fst (libvlc_InternalAddIntf b e p_libvlc psz_module b_block b_play opts w))
           ! length (trace w)
         = Object (IntfCreate
             (if b_daemon (libvlc_global w) \<and> b_block \<and> psz_module = None
                 \<and> (config_intf e = None \<or> config_intf e = Some [])
              then ''dummy''
              else (case psz_module of Some m \<Rightarrow> m | None \<Rightarrow> ''$intf''))
             opts (intf_Create e \<noteq> None))"
  unfolding add_intf_first_call intf_module_name_eq [OF assms] ..

theorem daemon_prefers_dummy_witness:
  "trace (fst (libvlc_InternalAddIntf build_linux intf_env_plain created_instance None True
            True []
            (created_process\<lparr>libvlc_global :=
               (libvlc_global created_process)\<lparr>b_daemon := True\<rparr>\<rparr>)))
     ! length (trace created_process)
   = Object (IntfCreate ''dummy'' [] True)
   \<and> trace (fst (libvlc_InternalAddIntf build_linux intf_env_plain created_instance None True
            True [] created_process))
     ! length (trace created_process)
   = Object (IntfCreate ''$intf'' [] True)"
  using daemon_prefers_dummy [of build_linux
      "created_process\<lparr>libvlc_global := (libvlc_global created_process)\<lparr>b_daemon := True\<rparr>\<rparr>"
      intf_env_plain created_instance None True True "[]"]
    daemon_prefers_dummy [of build_linux created_process intf_env_plain created_instance
      None True True "[]"]
  by (simp add: build_linux_def intf_env_plain_def created_process_def
      libvlc_InternalCreate_def create_ok_def process_start_def emit_def emits_def Let_def)

subsection \<open>\<^verbatim>\<open>libvlc_InternalCleanup\<close>: order of destruction\<close>

lemma emits_Nil [simp]: "emits [] w = w"
  by (simp add: emits_def)

lemma emits_emits [simp]: "emits ys (emits xs w) = emits (xs @ ys) w"
  by (simp add: emits_def)

lemma emit_as_emits: "emit a w = emits [a] w"
  by (simp add: emit_def emits_def)

lemma find_None_filter:
  "List.find P xs = None \<Longrightarrow> filter P xs = [] \<and> filter (\<lambda>x. \<not> P x) xs = xs"
  by (induction xs) (auto split: if_splits)

lemma find_holds: "List.find P xs = Some c \<Longrightarrow> P c"
  by (induction xs) (auto split: if_splits)

lemma find_Some_filter:
  "List.find P xs = Some c \<Longrightarrow>
     filter P xs = c # filter P (remove1 c xs)
     \<and> filter (\<lambda>x. \<not> P x) (remove1 c xs) = filter (\<lambda>x. \<not> P x) xs"
  by (induction xs) (auto split: if_splits dest: find_holds)

declare destroy_all.simps [simp del]

lemma destroy_all_eq:
  "destroy_all ty body (p, w) =
     (p\<lparr>children := filter (\<lambda>ch. fst ch \<noteq> ty) (children p)\<rparr>,
      emits (concat (map (\<lambda>ch. body (snd ch)) (filter (\<lambda>ch. fst ch = ty) (children p)))) w)"
proof (induction ty body "(p, w)" arbitrary: p w rule: destroy_all.induct)
  case (1 ty body p w)
  show ?case
  proof (cases "vlc_object_find p ty")
    case None
    then have "filter (\<lambda>ch. fst ch = ty) (children p) = []"
      and "filter (\<lambda>ch. fst ch \<noteq> ty) (children p) = children p"
      using find_None_filter [of "\<lambda>ch. fst ch = ty" "children p"]
      by (simp_all add: vlc_object_find_def)
    with None show ?thesis by (simp add: destroy_all.simps)
  next
    case (Some ch)
    then have f: "filter (\<lambda>ch. fst ch = ty) (children p)
                  = ch # filter (\<lambda>ch. fst ch = ty) (remove1 ch (children p))"
      and g: "filter (\<lambda>ch. fst ch \<noteq> ty) (remove1 ch (children p))
                  = filter (\<lambda>ch. fst ch \<noteq> ty) (children p)"
      using find_Some_filter [of "\<lambda>ch. fst ch = ty" "children p" ch]
      by (simp_all add: vlc_object_find_def)
    have "destroy_all ty body (p, w)
          = destroy_all ty body (vlc_object_detach ch p, emits (body (snd ch)) w)"
      using Some by (simp add: destroy_all.simps)
    also have "\<dots> = ((vlc_object_detach ch p)
                        \<lparr>children := filter (\<lambda>ch. fst ch \<noteq> ty)
                                       (children (vlc_object_detach ch p))\<rparr>,
                     emits (concat (map (\<lambda>ch. body (snd ch))
                              (filter (\<lambda>ch. fst ch = ty) (children (vlc_object_detach ch p)))))
                       (emits (body (snd ch)) w))"
      using "1" [OF Some] by simp
    finally show ?thesis
      by (simp add: vlc_object_detach_def f g)
  qed
qed

lemma ids_of_filter_other:
  "ty' \<noteq> ty \<Longrightarrow> ids_of ty (p\<lparr>children := filter (\<lambda>ch. fst ch \<noteq> ty') (children p)\<rparr>) = ids_of ty p"
  by (simp add: ids_of_def) (metis (mono_tags, lifting) filter_cong)

lemma destroy_all_ids:
  "destroy_all ty body (p, w) =
     (p\<lparr>children := filter (\<lambda>ch. fst ch \<noteq> ty) (children p)\<rparr>,
      emits (concat (map body (ids_of ty p))) w)"
  by (simp only: destroy_all_eq ids_of_def map_map comp_def)

text \<open>
  C9: \<^verbatim>\<open>libvlc_InternalCleanup\<close> stops, detaches, releases and destroys every interface,
  in the order they are found, then destroys the playlist, then detaches, releases and
  destroys every video output, then every audio output, then (after the statistics
  timers) every announce handler. The instance is returned with every field but
  \<open>children\<close> as it was, the children of other types still attached, and the status is
  \<^verbatim>\<open>VLC_SUCCESS\<close>.
\<close>

theorem cleanup_order:
  "libvlc_InternalCleanup p w =
     (p\<lparr>children := filter (\<lambda>ch. fst ch \<notin> {VLC_OBJECT_INTF, VLC_OBJECT_VOUT, VLC_OBJECT_AOUT,
                                             VLC_OBJECT_ANNOUNCE}) (children p)\<rparr>,
      w\<lparr>trace := trace w
           @ [Msg (MsgDbg ''removing all interfaces'')]
           @ concat (map (\<lambda>i. [Object (IntfStopThread i), Object (ObjectDetach i),
                                Object (ObjectRelease i), Object (IntfDestroy i)])
                      (map snd (filter (\<lambda>ch. fst ch = VLC_OBJECT_INTF) (children p))))
           @ [Msg (MsgDbg ''removing playlist''), Playlist PlaylistThreadDestroy,
              Msg (MsgDbg ''removing all video outputs'')]
           @ concat (map (\<lambda>i. [Object (ObjectDetach i), Object (ObjectRelease i),
                                Object (VoutDestroy i)])
                      (map snd (filter (\<lambda>ch. fst ch = VLC_OBJECT_VOUT) (children p))))
           @ [Msg (MsgDbg ''removing all audio outputs'')]
           @ concat (map (\<lambda>i. [Object (ObjectDetach i), Object (ObjectRelease i),
                                Object (AoutDelete i)])
                      (map snd (filter (\<lambda>ch. fst ch = VLC_OBJECT_AOUT) (children p))))
           @ [Object StatsTimersDumpAll, Object StatsTimersClean]
           @ concat (map (\<lambda>i. [Msg (MsgDbg ''removing announce handler''),
                                Object (ObjectDetach i), Object (ObjectRelease i),
                                Object (AnnounceHandlerDestroy i)])
                      (map snd (filter (\<lambda>ch. fst ch = VLC_OBJECT_ANNOUNCE) (children p))))\<rparr>,
      VLC_SUCCESS)"
proof -
  have bodies:
    "intf_body = (\<lambda>i. [Object (IntfStopThread i), Object (ObjectDetach i),
                         Object (ObjectRelease i), Object (IntfDestroy i)])"
    "vout_body = (\<lambda>i. [Object (ObjectDetach i), Object (ObjectRelease i), Object (VoutDestroy i)])"
    "aout_body = (\<lambda>i. [Object (ObjectDetach i), Object (ObjectRelease i), Object (AoutDelete i)])"
    "announce_body = (\<lambda>i. [Msg (MsgDbg ''removing announce handler''), Object (ObjectDetach i),
                             Object (ObjectRelease i), Object (AnnounceHandlerDestroy i)])"
    by (simp_all add: fun_eq_iff intf_body_def vout_body_def aout_body_def announce_body_def)
  have "libvlc_InternalCleanup p w =
     (p\<lparr>children := filter (\<lambda>ch. fst ch \<notin> {VLC_OBJECT_INTF, VLC_OBJECT_VOUT, VLC_OBJECT_AOUT,
                                             VLC_OBJECT_ANNOUNCE}) (children p)\<rparr>,
      w\<lparr>trace := trace w
           @ [Msg (MsgDbg ''removing all interfaces'')]
           @ concat (map intf_body (ids_of VLC_OBJECT_INTF p))
           @ [Msg (MsgDbg ''removing playlist''), Playlist PlaylistThreadDestroy,
              Msg (MsgDbg ''removing all video outputs'')]
           @ concat (map vout_body (ids_of VLC_OBJECT_VOUT p))
           @ [Msg (MsgDbg ''removing all audio outputs'')]
           @ concat (map aout_body (ids_of VLC_OBJECT_AOUT p))
           @ [Object StatsTimersDumpAll, Object StatsTimersClean]
           @ concat (map announce_body (ids_of VLC_OBJECT_ANNOUNCE p))\<rparr>,
      VLC_SUCCESS)"
    by (simp add: libvlc_InternalCleanup_def destroy_all_ids ids_of_filter_other emit_as_emits
        emits_def conj_commute conj_left_commute)
  then show ?thesis
    unfolding bodies ids_of_def .
qed

text \<open>
  An instance with two interfaces (1 and 3), a video output (2), an audio output (4), an
  announce handler (5) and the playlist object (6): the calls of the cleanup, one by one.
\<close>

theorem cleanup_order_witness:
  "libvlc_InternalCleanup busy_instance created_process =
     (busy_instance\<lparr>children := [(VLC_OBJECT_PLAYLIST, 6)]\<rparr>,
      created_process\<lparr>trace := trace created_process
           @ [Msg (MsgDbg ''removing all interfaces''),
              Object (IntfStopThread 1), Object (ObjectDetach 1), Object (ObjectRelease 1),
              Object (IntfDestroy 1),
              Object (IntfStopThread 3), Object (ObjectDetach 3), Object (ObjectRelease 3),
              Object (IntfDestroy 3),
              Msg (MsgDbg ''removing playlist''), Playlist PlaylistThreadDestroy,
              Msg (MsgDbg ''removing all video outputs''),
              Object (ObjectDetach 2), Object (ObjectRelease 2), Object (VoutDestroy 2),
              Msg (MsgDbg ''removing all audio outputs''),
              Object (ObjectDetach 4), Object (ObjectRelease 4), Object (AoutDelete 4),
              Object StatsTimersDumpAll, Object StatsTimersClean,
              Msg (MsgDbg ''removing announce handler''),
              Object (ObjectDetach 5), Object (ObjectRelease 5),
              Object (AnnounceHandlerDestroy 5)]\<rparr>,
      VLC_SUCCESS)"
  using cleanup_order [of busy_instance created_process]
  by (simp add: busy_instance_def)

subsection \<open>Instance count and process-wide teardown\<close>

lemma teardowns_append [simp]: "teardowns (xs @ ys) = teardowns xs @ teardowns ys"
  by (simp add: teardowns_def)

lemma teardowns_Nil [simp]: "teardowns [] = []"
  by (simp add: teardowns_def)

lemma create_effect:
  "libvlc_InternalCreate b e w = (w', r) \<Longrightarrow>
     i_instances w' = (if creates e then i_instances w + 1 else i_instances w)
     \<and> (r \<noteq> None) = creates e
     \<and> teardowns (trace w') = teardowns (trace w)"
  by (auto simp: libvlc_InternalCreate_def creates_def Let_def emit_def emits_def teardowns_def
      split: if_splits option.splits)

lemma end_bank_count [simp]:
  "i_instances (module_EndBank w) = i_instances w"
  "trace (module_EndBank w) = trace w @ [Module ModuleEndBank]"
  "b_ready (libvlc_global (module_EndBank w)) = b_ready (libvlc_global w)"
  "i_cpu (libvlc_global (module_EndBank w)) = i_cpu (libvlc_global w)"
  "b_daemon (libvlc_global (module_EndBank w)) = b_daemon (libvlc_global w)"
  by (simp_all add: module_EndBank_def Let_def emit_def)

lemma destroy_effect:
  "i_instances (libvlc_InternalDestroy p r w) = i_instances w - 1"
  "teardowns (trace (libvlc_InternalDestroy p r w))
     = teardowns (trace w) @ (if i_instances w = 1 then [Sys SystemEnd, Sys LocaleDeinit] else [])"
  by (simp_all add: libvlc_InternalDestroy_def Let_def emit_def emits_def teardowns_def)

lemma word32_of_nat_eq_1: "n < 2 ^ 32 \<Longrightarrow> ((of_nat n :: 32 word) = 1) = (n = 1)"
proof -
  assume "n < 2 ^ 32"
  then have "unat (of_nat n :: 32 word) = n"
    by (simp add: unat_of_nat)
  then show ?thesis
    by (metis unat_1 of_nat_1)
qed

lemma word32_of_nat_pred: "0 < n \<Longrightarrow> (of_nat n :: 32 word) - 1 = of_nat (n - 1)"
  by (cases n) simp_all

lemma run_call_step:
  assumes inv: "i_instances w = of_nat (length live)"
    and bound: "length live < 2 ^ 32"
    and step: "run_call b c (w, live) = (w', live')"
  shows "i_instances w' = of_nat (length live')"
    and "length live' = live_after [c] (length live)"
    and "teardowns (trace w')
         = teardowns (trace w) @ concat (replicate (idle_returns [c] (length live)) teardown_pair)"
proof -
  show "i_instances w' = of_nat (length live')"
  proof (cases c)
    case (CallCreate e)
    obtain w1 r where cr: "libvlc_InternalCreate b e w = (w1, r)"
      by (cases "libvlc_InternalCreate b e w")
    from create_effect [OF cr] cr step CallCreate inv show ?thesis
      by (cases r) (auto split: if_splits)
  next
    case (CallDestroy k b_release)
    with step inv show ?thesis
      by (auto simp: destroy_effect word32_of_nat_pred split: if_splits)
  qed
  show "length live' = live_after [c] (length live)"
  proof (cases c)
    case (CallCreate e)
    obtain w1 r where cr: "libvlc_InternalCreate b e w = (w1, r)"
      by (cases "libvlc_InternalCreate b e w")
    from create_effect [OF cr] cr step CallCreate show ?thesis
      by (cases r) (auto split: if_splits)
  next
    case (CallDestroy k b_release)
    with step show ?thesis
      by (auto split: if_splits)
  qed
  show "teardowns (trace w')
         = teardowns (trace w) @ concat (replicate (idle_returns [c] (length live)) teardown_pair)"
  proof (cases c)
    case (CallCreate e)
    obtain w1 r where cr: "libvlc_InternalCreate b e w = (w1, r)"
      by (cases "libvlc_InternalCreate b e w")
    from create_effect [OF cr] cr step CallCreate show ?thesis
      by (cases r) (auto split: if_splits)
  next
    case (CallDestroy k b_release)
    with step inv bound show ?thesis
      by (auto simp: destroy_effect word32_of_nat_eq_1 teardown_pair_def split: if_splits)
  qed
qed

lemma live_after_le: "live_after cs n \<le> n + length cs"
  by (induction cs n rule: live_after.induct) (auto split: if_splits)

lemma live_after_append: "live_after (xs @ ys) n = live_after ys (live_after xs n)"
  by (induction xs n rule: live_after.induct) auto

lemma idle_returns_append:
  "idle_returns (xs @ ys) n = idle_returns xs n + idle_returns ys (live_after xs n)"
  by (induction xs n rule: idle_returns.induct) auto

lemma run_calls_effect:
  assumes "i_instances w = of_nat (length live)"
    and "length live + length calls < 2 ^ 32"
    and "run_calls b calls (w, live) = (w', live')"
  shows "i_instances w' = of_nat (length live')
     \<and> length live' = live_after calls (length live)
     \<and> teardowns (trace w')
         = teardowns (trace w) @ concat (replicate (idle_returns calls (length live)) teardown_pair)"
  using assms
proof (induction calls arbitrary: w live)
  case Nil
  then show ?case by simp
next
  case (Cons c cs)
  obtain w1 live1 where st: "run_call b c (w, live) = (w1, live1)"
    by (cases "run_call b c (w, live)")
  have bound: "length live < 2 ^ 32"
    using Cons.prems(2) by simp
  note s = run_call_step [OF Cons.prems(1) bound st]
  have "length live1 \<le> length live + 1"
    using s(2) live_after_le [of "[c]" "length live"] by simp
  then have b1: "length live1 + length cs < 2 ^ 32"
    using Cons.prems(2) by simp
  have r: "run_calls b cs (w1, live1) = (w', live')"
    using Cons.prems(3) st by simp
  from Cons.IH [OF s(1) b1 r] s(2,3)
  have "i_instances w' = of_nat (length live')"
    and "length live' = live_after cs (live_after [c] (length live))"
    and "teardowns (trace w')
         = teardowns (trace w)
           @ concat (replicate (idle_returns [c] (length live)) teardown_pair)
           @ concat (replicate (idle_returns cs (live_after [c] (length live))) teardown_pair)"
    by simp_all
  then show ?case
    using live_after_append [of "[c]" cs "length live"]
      idle_returns_append [of "[c]" cs "length live"]
    by (simp add: replicate_add)
qed

lemma run_calls_append: "run_calls b (xs @ ys) s = run_calls b ys (run_calls b xs s)"
  by (induction xs arbitrary: s) simp_all

lemma last_release_idle:
  "0 < m \<Longrightarrow> live_after [c] m = 0 \<Longrightarrow> idle_returns [c] m = 1"
  by (cases c) (auto split: if_splits)

text \<open>
  C1, as stated, fails: two matched pairs run one after the other leave no instance, and
  the teardown has run twice.
\<close>

theorem teardown_once_counterexample:
  "snd (run_calls build_linux calls_in_turn (process_start, [])) = []
   \<and> teardowns (trace (fst (run_calls build_linux calls_in_turn (process_start, []))))
     = [Sys SystemEnd, Sys LocaleDeinit, Sys SystemEnd, Sys LocaleDeinit]"
  by (simp add: calls_in_turn_def libvlc_InternalCreate_def libvlc_InternalDestroy_def
      module_EndBank_def create_ok_def process_start_def build_linux_def emit_def emits_def
      teardowns_def Let_def)

text \<open>
  C1, amended: for every run of fewer than \<open>2^32\<close> calls from a fresh process that
  leaves no live instance, the count is 0 at the end and the teardown (\<^verbatim>\<open>system_End\<close>
  then \<^verbatim>\<open>LocaleDeinit\<close>) has run once for each destruction that left no live
  instance, and at no other time; so when no destruction before the last call does so
  while an instance is live before it, the teardown runs exactly once, in the last call.
\<close>

theorem acquire_release_teardown:
  assumes "length calls < 2 ^ 32"
    and "run_calls b calls (process_start, []) = (w, [])"
  shows "i_instances w = 0
     \<and> teardowns (trace w)
         = concat (replicate (idle_returns calls 0) [Sys SystemEnd, Sys LocaleDeinit])
     \<and> (\<forall>cs c. calls = cs @ [c] \<and> 0 < live_after cs 0 \<and> idle_returns cs 0 = 0 \<longrightarrow>
          teardowns (trace (fst (run_calls b cs (process_start, [])))) = []
          \<and> teardowns (trace w) = [Sys SystemEnd, Sys LocaleDeinit])"
proof -
  have start: "i_instances process_start = of_nat (length ([] :: libvlc_int_t list))"
    "trace process_start = []"
    by (simp_all add: process_start_def)
  have b0: "length ([] :: libvlc_int_t list) + length calls < 2 ^ 32"
    using assms(1) by simp
  note all = run_calls_effect [OF start(1) b0 assms(2)]
  have count: "i_instances w = 0" and live: "live_after calls 0 = 0"
    and td: "teardowns (trace w) = concat (replicate (idle_returns calls 0) teardown_pair)"
    using all start(2) by simp_all
  have last: "teardowns (trace (fst (run_calls b cs (process_start, [])))) = []
          \<and> teardowns (trace w) = [Sys SystemEnd, Sys LocaleDeinit]"
    if split: "calls = cs @ [c]" and busy: "0 < live_after cs 0" and quiet: "idle_returns cs 0 = 0"
    for cs c
  proof -
    obtain w1 live1 where r1: "run_calls b cs (process_start, []) = (w1, live1)"
      by (cases "run_calls b cs (process_start, [])")
    have b1: "length ([] :: libvlc_int_t list) + length cs < 2 ^ 32"
      using assms(1) split by simp
    have "teardowns (trace w1) = []"
      using run_calls_effect [OF start(1) b1 r1] start(2) quiet by simp
    moreover have "live_after [c] (live_after cs 0) = 0"
      using live split by (simp add: live_after_append)
    then have "idle_returns [c] (live_after cs 0) = 1"
      using busy by (rule last_release_idle [rotated])
    then have "idle_returns calls 0 = 1"
      using split quiet by (simp add: idle_returns_append)
    ultimately show ?thesis
      using td r1 by (simp add: teardown_pair_def)
  qed
  from count td last show ?thesis
    by (simp add: teardown_pair_def)
qed

theorem acquire_release_teardown_witness:
  "i_instances (fst (run_calls build_linux calls_nested (process_start, []))) = 0
   \<and> teardowns (trace (fst (run_calls build_linux calls_nested (process_start, []))))
       = [Sys SystemEnd, Sys LocaleDeinit]
   \<and> teardowns (trace (fst (run_calls build_linux (butlast calls_nested) (process_start, []))))
       = []"
proof -
  have len: "length calls_nested < 2 ^ 32"
    by (simp add: calls_nested_def)
  have released: "snd (run_calls build_linux calls_nested (process_start, [])) = []"
    by (simp add: calls_nested_def libvlc_InternalCreate_def create_ok_def Let_def)
  then have run: "run_calls build_linux calls_nested (process_start, [])
      = (fst (run_calls build_linux calls_nested (process_start, [])), [])"
    by (metis prod.collapse)
  have shape: "calls_nested = butlast calls_nested @ [CallDestroy 0 True]"
    "0 < live_after (butlast calls_nested) 0" "idle_returns (butlast calls_nested) 0 = 0"
    by (simp_all add: calls_nested_def creates_def create_ok_def)
  from acquire_release_teardown [OF len run] shape show ?thesis
    by blast
qed

subsection \<open>The last release and the ready flag\<close>

text \<open>
  C3, as stated, fails: after one creation and its destruction the count is 0 and
  \<^verbatim>\<open>b_ready\<close> is still set, and a creation that follows keeps the capabilities of the
  first one (1) instead of taking those the CPU detection would now give (3).
\<close>

theorem ready_flag_counterexample:
  "i_instances (fst (run_calls build_linux
       [CallCreate ((create_ok 1)\<lparr>CPUCapabilities := 1\<rparr>), CallDestroy 0 False]
       (process_start, []))) = 0
   \<and> b_ready (libvlc_global (fst (run_calls build_linux
       [CallCreate ((create_ok 1)\<lparr>CPUCapabilities := 1\<rparr>), CallDestroy 0 False]
       (process_start, []))))
   \<and> i_cpu (libvlc_global (fst (run_calls build_linux
       [CallCreate ((create_ok 1)\<lparr>CPUCapabilities := 1\<rparr>), CallDestroy 0 False,
        CallCreate ((create_ok 2)\<lparr>CPUCapabilities := 3\<rparr>)]
       (process_start, [])))) = 1"
  by (simp add: libvlc_InternalCreate_def libvlc_InternalDestroy_def
      module_EndBank_def create_ok_def process_start_def build_linux_def emit_def emits_def
      Let_def)

lemma destroy_trace:
  "trace (libvlc_InternalDestroy p b_release w)
     = trace w
       @ (if p_memcpy_module p \<noteq> None then [Module ModuleUnneed] else [])
       @ [Module ModuleEndBank, Thread MutexLock]
       @ (if i_instances w = 1 then [Sys SystemEnd, Sys LocaleDeinit] else [])
       @ [Thread MutexUnlock, Msg MsgFlush, Msg MsgDestroy, Thread MutexDestroy,
          Thread MutexDestroy]
       @ (if b_release then [Object (ObjectRelease (i_object_id p))] else [])
       @ [Object ObjectDestroySelf, Thread ThreadsEnd]"
  by (simp add: libvlc_InternalDestroy_def Let_def emit_def emits_def)

lemma destroy_global:
  "b_ready (libvlc_global (libvlc_InternalDestroy p b_release w)) = b_ready (libvlc_global w)"
  "i_cpu (libvlc_global (libvlc_InternalDestroy p b_release w)) = i_cpu (libvlc_global w)"
  by (simp_all add: libvlc_InternalDestroy_def Let_def emit_def emits_def)

lemma create_keeps_cpu:
  "b_ready (libvlc_global w) \<Longrightarrow>
   i_cpu (libvlc_global (fst (libvlc_InternalCreate b e w))) = i_cpu (libvlc_global w)"
  by (simp add: libvlc_InternalCreate_def Let_def emit_def emits_def split: option.splits)

text \<open>
  C3, amended: a destruction that brings the count from 1 to 0 calls \<^verbatim>\<open>system_End\<close>
  and \<^verbatim>\<open>LocaleDeinit\<close> between taking and giving back the lock; it leaves
  \<^verbatim>\<open>b_ready\<close> and the capabilities as they were, so that a creation that follows,
  with \<^verbatim>\<open>b_ready\<close> still set, does not compute the capabilities again.
\<close>

theorem release_last_instance:
  assumes "i_instances w = 1"
  shows "i_instances (libvlc_InternalDestroy p b_release w) = 0
     \<and> trace (libvlc_InternalDestroy p b_release w)
         = trace w
           @ (if p_memcpy_module p \<noteq> None then [Module ModuleUnneed] else [])
           @ [Module ModuleEndBank, Thread MutexLock, Sys SystemEnd, Sys LocaleDeinit,
              Thread MutexUnlock, Msg MsgFlush, Msg MsgDestroy, Thread MutexDestroy,
              Thread MutexDestroy]
           @ (if b_release then [Object (ObjectRelease (i_object_id p))] else [])
           @ [Object ObjectDestroySelf, Thread ThreadsEnd]
     \<and> b_ready (libvlc_global (libvlc_InternalDestroy p b_release w))
         = b_ready (libvlc_global w)
     \<and> i_cpu (libvlc_global (libvlc_InternalDestroy p b_release w))
         = i_cpu (libvlc_global w)
     \<and> (b_ready (libvlc_global w) \<longrightarrow>
          i_cpu (libvlc_global (fst (libvlc_InternalCreate b e
                   (libvlc_InternalDestroy p b_release w))))
            = i_cpu (libvlc_global w))"
  using assms create_keeps_cpu [of "libvlc_InternalDestroy p b_release w" b e]
  by (simp add: destroy_effect destroy_trace destroy_global)

theorem release_last_instance_witness:
  "i_instances created_process = 1
   \<and> i_instances (libvlc_InternalDestroy created_instance False created_process) = 0
   \<and> b_ready (libvlc_global (libvlc_InternalDestroy created_instance False created_process))
   \<and> teardowns (trace (libvlc_InternalDestroy created_instance False created_process))
       = [Sys SystemEnd, Sys LocaleDeinit]"
proof -
  have one: "i_instances created_process = 1" and ready: "b_ready (libvlc_global created_process)"
    and quiet: "teardowns (trace created_process) = []"
    by (simp_all add: created_process_def libvlc_InternalCreate_def create_ok_def
        process_start_def emit_def emits_def teardowns_def Let_def)
  from release_last_instance [OF one, of created_instance False build_linux "create_ok 2"]
    one ready quiet
  show ?thesis
    by (simp add: teardowns_def)
qed

subsection \<open>Steps of \<^verbatim>\<open>libvlc_InternalInit\<close>: helpers\<close>

lemma bank_simps [simp]:
  "vlc (init_bank c) = vlc c" "b_exit (init_bank c) = b_exit c" "i_ret (init_bank c) = i_ret c"
  "trace (proc (init_bank c)) = trace (proc c) @ [Module ModuleInitBank]"
  "b_daemon (libvlc_global (proc (init_bank c))) = b_daemon (libvlc_global (proc c))"
  "vlc (end_bank c) = vlc c" "b_exit (end_bank c) = b_exit c" "i_ret (end_bank c) = i_ret c"
  "trace (proc (end_bank c)) = trace (proc c) @ [Module ModuleEndBank]"
  "b_daemon (libvlc_global (proc (end_bank c))) = b_daemon (libvlc_global (proc c))"
  by (simp_all add: init_bank_def end_bank_def module_InitBank_def module_EndBank_def Let_def
      emit_def)

lemma exit_with_simps [simp]:
  "vlc (exit_with r c) = vlc c" "b_exit (exit_with r c) = True" "i_ret (exit_with r c) = r"
  "proc (exit_with r c) = proc c"
  by (simp_all add: exit_with_def)

lemma set_daemon_simps [simp]:
  "vlc (set_daemon c) = vlc c" "b_exit (set_daemon c) = b_exit c"
  "i_ret (set_daemon c) = i_ret c" "trace (proc (set_daemon c)) = trace (proc c)"
  "b_daemon (libvlc_global (proc (set_daemon c))) = True"
  "p_module_bank (libvlc_global (proc (set_daemon c))) = p_module_bank (libvlc_global (proc c))"
  by (simp_all add: set_daemon_def)

lemma diagnostics_append [simp]: "diagnostics (xs @ ys) = diagnostics xs @ diagnostics ys"
  by (induction xs rule: diagnostics.induct) simp_all

lemma playlist_created_append [simp]:
  "playlist_created (xs @ ys) = (playlist_created xs \<or> playlist_created ys)"
  by (induction xs rule: playlist_created.induct) simp_all

lemma forward_mrls_frame:
  "forward_mrls e i items w = w\<lparr>trace := trace (forward_mrls e i items w)\<rparr>"
proof (induction items arbitrary: i w)
  case Nil
  show ?case by (simp add: emit_def)
next
  case (Cons mrl rest)
  show ?case
  proof (cases "dbus_forward e i")
    case Acknowledged
    then show ?thesis
      using Cons [of "Suc i"
          "emits [Dbus (DbusNewAddMRL True),
                  Dbus (DbusSend mrl (config_GetInt e ''playlist-enqueue'' = 0)),
                  Dbus DbusFlush, Dbus DbusMsgUnref, Dbus DbusAwaitReply,
                  Dbus DbusPendingUnref] (emit (Msg (MsgDbg ''Give %s to other vlc'')) w)"]
      by (simp add: Let_def emit_def emits_def)
  qed (simp_all add: Let_def emit_def emits_def)
qed

lemma forward_mrls_acked:
  assumes "\<forall>j < length items. dbus_forward e (i + j) = Acknowledged"
  shows "trace (forward_mrls e i items w)
         = trace w
           @ concat (map (forward_calls (config_GetInt e ''playlist-enqueue'' = 0)) items)
           @ [Sys SystemEnd]"
  using assms
proof (induction items arbitrary: i w)
  case Nil
  show ?case by (simp add: emit_def)
next
  case (Cons mrl rest)
  have head: "dbus_forward e i = Acknowledged"
    using Cons.prems by force
  have tail: "\<forall>j < length rest. dbus_forward e (Suc i + j) = Acknowledged"
    using Cons.prems by force
  show ?case
    using head Cons.IH [OF tail]
    by (simp add: Let_def emit_def emits_def forward_calls_def)
qed


subsection \<open>Forwarding to a running instance\<close>

lemma post_Go [simp]: "post Q R (Go c) = Q c"
  by (simp add: post_def)

lemma post_Stop [simp]: "post Q R (Stop x c) = R x c"
  by (simp add: post_def)

lemma post_andthen:
  assumes "post Q R fl" and "\<And>c. Q c \<Longrightarrow> post Q' R (f c)"
  shows "post Q' R (andthen fl f)"
  using assms by (cases fl) (simp_all add: andthen_def)

lemma post_weaken:
  assumes "post Q R fl" and "\<And>c. Q c \<Longrightarrow> Q' c" and "\<And>x c. R x c \<Longrightarrow> R' x c"
  shows "post Q' R' fl"
  using assms by (cases fl) simp_all

lemma andthen_Go [simp]: "andthen (Go c) f = f c"
  by (simp add: andthen_def)

lemma andthen_Stop [simp]: "andthen (Stop x c) f = Stop x c"
  by (simp add: andthen_def)


lemma sends_append [simp]: "sends (xs @ ys) = sends xs @ sends ys"
  by (induction xs rule: sends.induct) simp_all

lemma sends_forward_calls: "sends (concat (map (forward_calls bp) items)) = map (\<lambda>mrl. (mrl, bp)) items"
  by (induction items) (simp_all add: forward_calls_def)

lemma playlist_created_forward_calls:
  "\<not> playlist_created (concat (map (forward_calls bp) items))"
  by (induction items) (simp_all add: forward_calls_def)

lemma frame_startup: "frame pc pp c \<Longrightarrow> post (frame pc pp) (\<lambda>x. frame pc pp) (init_startup b e c)"
  by (simp add: frame_def init_startup_def Let_def)

lemma frame_cmdline_first:
  "frame pc pp c \<Longrightarrow> post (frame pc pp) (\<lambda>x. frame pc pp) (init_cmdline_first b e c)"
  by (simp add: frame_def init_cmdline_first_def Let_def)

lemma frame_config_paths:
  "frame pc pp c \<Longrightarrow> post (frame pc pp) (\<lambda>x. frame pc pp) (init_config_paths b e c)"
  by (simp add: frame_def init_config_paths_def Let_def split: option.splits)

lemma frame_daemon:
  "frame pc pp c \<Longrightarrow> post (frame pc pp) (\<lambda>x. frame pc pp) (init_daemon b e c)"
  by (simp add: frame_def init_daemon_def daemon_step_def pidfile_step_def Let_def
      split: option.splits)

lemma frame_language:
  "frame pc pp c \<Longrightarrow> post (frame pc pp) (\<lambda>x. frame pc pp) (init_language b e c)"
  by (simp add: frame_def init_language_def Let_def split: option.splits)

lemma frame_modules:
  "frame pc pp c \<Longrightarrow> post (frame pc pp) (\<lambda>x. frame pc pp) (init_modules b e c)"
  by (simp add: frame_def init_modules_def help_step_def reset_config_step_def
      save_config_step_def Let_def split: option.splits)

lemma frame_config_final:
  "frame pc pp c \<Longrightarrow> post (frame pc pp) (\<lambda>x. frame pc pp) (init_config_final b e c)"
  by (simp add: frame_def init_config_final_def Let_def)

lemma frame_bootstrap:
  "frame pc pp c \<Longrightarrow> post (frame pc pp) (\<lambda>x. frame pc pp) (init_bootstrap b e c)"
  unfolding init_bootstrap_def init_before_language_def
  by (intro post_andthen [where Q = "frame pc pp"] frame_startup frame_cmdline_first
      frame_config_paths frame_daemon frame_language frame_modules frame_config_final)

lemma bootstrap_no_playlist:
  assumes "init_bootstrap b e (init_ctx_of p w) = Go c"
  shows "playlist_created (trace (proc c)) = playlist_created (trace w)"
    and "p_playlist (vlc c) = p_playlist p"
proof -
  have "frame (playlist_created (trace w)) (p_playlist p) (init_ctx_of p w)"
    by (simp add: frame_def init_ctx_of_def)
  from frame_bootstrap [OF this, of b e] assms
  show "playlist_created (trace (proc c)) = playlist_created (trace w)"
    and "p_playlist (vlc c) = p_playlist p"
    by (simp_all add: frame_def)
qed

lemma dbus_forwarding:
  assumes "HAVE_DBUS_3 b" "dbus_bus_get e" "dbus_request_name e = NotPrimaryOwner"
    and "config_GetInt e ''one-instance'' \<noteq> 0" and "dbus_probe_reply e"
  shows "init_dbus b e c
         = Stop (Ends (Exited 0))
             (c\<lparr>proc := (proc c)\<lparr>trace :=
                trace (forward_mrls e (optind e) (drop (optind e) (ppsz_argv e))
                  (proc (say [Dbus (DbusBusGet True), Dbus DbusRequestName,
                     Dbus (DbusProbe True),
                     Msg (MsgWarn ''Another vlc instance exists: will now exit'')] c)))\<rparr>\<rparr>)"
proof -
  let ?c2 = "say [Dbus (DbusBusGet True), Dbus DbusRequestName,
                     Dbus (DbusProbe True),
                     Msg (MsgWarn ''Another vlc instance exists: will now exit'')] c"
  have "init_dbus b e c = Stop (Ends (Exited 0))
          (?c2\<lparr>proc := forward_mrls e (optind e) (drop (optind e) (ppsz_argv e)) (proc ?c2)\<rparr>)"
    using assms by (simp add: init_dbus_def Let_def say_def emits_def)
  also have "forward_mrls e (optind e) (drop (optind e) (ppsz_argv e)) (proc ?c2)
      = (proc ?c2)\<lparr>trace := trace (forward_mrls e (optind e) (drop (optind e) (ppsz_argv e))
          (proc ?c2))\<rparr>"
    by (rule forward_mrls_frame)
  finally show ?thesis
    by (simp add: say_def emits_def)
qed

text \<open>
  When the steps before the D-Bus check all go on, the name is owned by another
  instance, one-instance mode is set, the probe of that instance is answered and every
  call is acknowledged, \<^verbatim>\<open>libvlc_InternalInit\<close> ends the process with \<^verbatim>\<open>exit( 0 )\<close>.
  What it does from the D-Bus check on is exactly: connect, request the name, probe, warn,
  then for each argument \<^verbatim>\<open>argv[optind..]\<close> in order the calls of \<open>forward_calls\<close>
  (build the \<^verbatim>\<open>AddMRL\<close> call, send it, flush, wait for the reply), each with
  \<^verbatim>\<open>b_play\<close> set unless \<^verbatim>\<open>playlist-enqueue\<close> is, and at last \<^verbatim>\<open>system_End\<close>.
  \<^verbatim>\<open>playlist_ThreadCreate\<close> is not called and the playlist of the instance is what it
  was. The loop sends every argument, whether it names an input or is an option.
\<close>

lemma forwarding_sends_every_argument:
  assumes boot: "init_bootstrap b e (init_ctx_of p w) = Go c"
    and dbus: "HAVE_DBUS_3 b" "dbus_bus_get e" "dbus_request_name e = NotPrimaryOwner"
    and policy: "config_GetInt e ''one-instance'' \<noteq> 0"
    and alive: "dbus_probe_reply e"
    and acked: "\<forall>i. optind e \<le> i \<and> i < length (ppsz_argv e) \<longrightarrow> dbus_forward e i = Acknowledged"
  shows "libvlc_InternalInit b e p w
         = Stop (Ends (Exited 0))
             (c\<lparr>proc := (proc c)\<lparr>trace := trace (proc c)
                 @ [Dbus (DbusBusGet True), Dbus DbusRequestName, Dbus (DbusProbe True),
                    Msg (MsgWarn ''Another vlc instance exists: will now exit'')]
                 @ concat (map (forward_calls (config_GetInt e ''playlist-enqueue'' = 0))
                             (drop (optind e) (ppsz_argv e)))
                 @ [Sys SystemEnd]\<rparr>\<rparr>)
     \<and> sends (trace_of (libvlc_InternalInit b e p w))
         = sends (trace (proc c))
           @ map (\<lambda>mrl. (mrl, config_GetInt e ''playlist-enqueue'' = 0))
               (drop (optind e) (ppsz_argv e))
     \<and> playlist_created (trace_of (libvlc_InternalInit b e p w)) = playlist_created (trace w)
     \<and> p_playlist (vlc (ctx_of (libvlc_InternalInit b e p w))) = p_playlist p"
proof -
  have all: "\<forall>j < length (drop (optind e) (ppsz_argv e)). dbus_forward e (optind e + j) = Acknowledged"
    using acked by simp
  have run: "libvlc_InternalInit b e p w
         = Stop (Ends (Exited 0))
             (c\<lparr>proc := (proc c)\<lparr>trace := trace (proc c)
                 @ [Dbus (DbusBusGet True), Dbus DbusRequestName, Dbus (DbusProbe True),
                    Msg (MsgWarn ''Another vlc instance exists: will now exit'')]
                 @ concat (map (forward_calls (config_GetInt e ''playlist-enqueue'' = 0))
                             (drop (optind e) (ppsz_argv e)))
                 @ [Sys SystemEnd]\<rparr>\<rparr>)"
    using boot dbus_forwarding [OF dbus policy alive, of c] forward_mrls_acked [OF all]
    by (simp add: libvlc_InternalInit_def)
  from bootstrap_no_playlist [OF boot] show ?thesis
    unfolding run by (simp add: trace_of_def sends_forward_calls playlist_created_forward_calls)
qed


lemma bootstrap_peer: "ending_of (init_bootstrap build_linux env_peer (init_ctx_of created_instance created_process)) = None"
  by code_simp

text \<open>
  C5: the code departs from the claim where an argument is an option of the input before
  it. \<^verbatim>\<open>GetFilenames\<close>, by its header (``An option always follows its associated
  input and begins with a ":"''), makes of the arguments \<^verbatim>\<open>a.mp4 :start-time=10\<close> one
  target, \<^verbatim>\<open>a.mp4\<close> with one option. With the same arguments, a responsive instance
  owning the name and every call acknowledged, the forwarding loop of
  \<^verbatim>\<open>libvlc_InternalInit\<close> makes two \<^verbatim>\<open>AddMRL\<close> calls, the second with the option as
  its MRL: two forwarding calls for one work item. The rest is as the claim says: the
  calls are in the order of the arguments, each is sent, flushed and waited for before
  the next is built, \<^verbatim>\<open>b_play\<close> is the negation of \<^verbatim>\<open>playlist-enqueue\<close>, the process
  ends with \<^verbatim>\<open>exit( 0 )\<close> and \<^verbatim>\<open>playlist_ThreadCreate\<close> is not called.
\<close>

theorem forwards_option_as_item:
  "drop (optind env_option) (ppsz_argv env_option) = [''a.mp4'', '':start-time=10'']
   \<and> GetFilenames env_option = [Playlist (AddTarget ''a.mp4'' ['':start-time=10''])]
   \<and> ending_of (libvlc_InternalInit build_linux env_option created_instance created_process)
       = Some (Ends (Exited 0))
   \<and> sends (trace_of (libvlc_InternalInit build_linux env_option created_instance
                         created_process))
       = [(''a.mp4'', True), ('':start-time=10'', True)]
   \<and> drop (length (trace_of (init_bootstrap build_linux env_option
                                 (init_ctx_of created_instance created_process))))
         (trace_of (libvlc_InternalInit build_linux env_option created_instance
                      created_process))
       = [Dbus (DbusBusGet True), Dbus DbusRequestName, Dbus (DbusProbe True),
          Msg (MsgWarn ''Another vlc instance exists: will now exit''),
          Msg (MsgDbg ''Give %s to other vlc''), Dbus (DbusNewAddMRL True),
          Dbus (DbusSend ''a.mp4'' True), Dbus DbusFlush, Dbus DbusMsgUnref,
          Dbus DbusAwaitReply, Dbus DbusPendingUnref,
          Msg (MsgDbg ''Give %s to other vlc''), Dbus (DbusNewAddMRL True),
          Dbus (DbusSend '':start-time=10'' True), Dbus DbusFlush, Dbus DbusMsgUnref,
          Dbus DbusAwaitReply, Dbus DbusPendingUnref,
          Sys SystemEnd]
   \<and> \<not> playlist_created
         (trace_of (libvlc_InternalInit build_linux env_option created_instance
                      created_process))"
  by code_simp

subsection \<open>Unreachable peer, failed forwarding\<close>





subsection \<open>The language reload\<close>

declare GetFilenames_from.simps [simp del] split_modules.simps [simp del]

lemma bank_inits_append [simp]: "bank_inits (xs @ ys) = bank_inits xs + bank_inits ys"
  by (simp add: bank_inits_def)

lemma bank_inits_Nil [simp]: "bank_inits [] = 0"
  by (simp add: bank_inits_def)

lemma bank_inits_Cons [simp]:
  "bank_inits (a # tr) = (if a = Module ModuleInitBank then 1 else 0) + bank_inits tr"
  by (simp add: bank_inits_def)


lemma GetFilenames_from_targets:
  "a \<in> set (GetFilenames_from argv opt_ind i_opt i_options) \<Longrightarrow>
     \<exists>target opts. a = Playlist (AddTarget target opts)"
proof (induction argv opt_ind i_opt i_options rule: GetFilenames_from.induct)
  case (1 argv opt_ind i_opt i_options)
  show ?case
  proof (cases "i_opt < opt_ind \<or> i_opt < 0")
    case True
    with "1.prems" show ?thesis
      by (subst (asm) GetFilenames_from.simps) simp
  next
    case outer: False
    show ?thesis
    proof (cases "starts_with_colon (argv ! nat i_opt) \<and> i_opt > opt_ind")
      case True
      with outer "1.prems"
      have "a \<in> set (GetFilenames_from argv opt_ind (i_opt - 1) (Suc i_options))"
        by (subst (asm) GetFilenames_from.simps) simp
      then show ?thesis
        by (rule "1.IH"(1) [OF outer True])
    next
      case False
      with outer "1.prems"
      have "a = Playlist (AddTarget (argv ! nat i_opt)
                        (take i_options (drop (nat i_opt + 1) argv)))
            \<or> a \<in> set (GetFilenames_from argv opt_ind (i_opt - 1) 0)"
        by (subst (asm) GetFilenames_from.simps) auto
      then show ?thesis
        using "1.IH"(2) [OF outer False] by blast
    qed
  qed
qed

lemma bank_inits_none: "(\<And>a. a \<in> set tr \<Longrightarrow> a \<noteq> Module ModuleInitBank) \<Longrightarrow> bank_inits tr = 0"
  by (induction tr) simp_all

lemma bank_inits_GetFilenames [simp]: "bank_inits (GetFilenames e) = 0"
  unfolding GetFilenames_def
  by (rule bank_inits_none) (auto dest: GetFilenames_from_targets)

lemma bank_inits_map_AddIntf [simp]:
  "bank_inits (map (\<lambda>m. Playlist (AddIntf (f m) [])) ms) = 0"
  by (induction ms) simp_all

lemma bank_inits_map_VarCreate [simp]:
  "bank_inits (map (\<lambda>v. Config (VarCreate v)) vs) = 0"
  by (induction vs) simp_all













lemma post_same: "post Q (\<lambda>x. Q) fl \<Longrightarrow> Q (ctx_of fl)"
  by (cases fl) simp_all















subsection \<open>Unwinding on failure\<close>

lemma held_snoc: "held (tr @ [a]) = held_step (held tr) a"
  by (simp add: held_def)

lemma parts_snoc:
  "forward_part (tr @ [a]) = (if is_release a then forward_part tr else tr @ [a])"
  "unwind_part (tr @ [a]) = (if is_release a then unwind_part tr @ [a] else [])"
  by (simp_all add: forward_part_def unwind_part_def)

lemma summary_snoc: "summary (tr @ [a]) = analyse (summary tr) a"
  by (simp add: summary_def held_snoc parts_snoc)

lemma summary_append: "summary (tr @ xs) = foldl analyse (summary tr) xs"
proof (induction xs arbitrary: tr)
  case Nil
  show ?case by simp
next
  case (Cons x xs)
  have "summary (tr @ x # xs) = summary ((tr @ [x]) @ xs)"
    by simp
  also have "\<dots> = foldl analyse (summary (tr @ [x])) xs"
    by (rule Cons)
  finally show ?case
    by (simp add: summary_snoc)
qed

lemma failed_since_snoc:
  "failed_since e (tr @ [a]) = (acquires a = None \<and> (failed_since e tr \<or> fails e a))"
  by (auto simp: failed_since_def after_last_acquire_def)

lemma failed_since_append:
  "failed_since e (tr @ xs)
     = foldl (\<lambda>F a. acquires a = None \<and> (F \<or> fails e a)) (failed_since e tr) xs"
proof (induction xs arbitrary: tr)
  case Nil
  show ?case by simp
next
  case (Cons x xs)
  have "failed_since e (tr @ x # xs) = failed_since e ((tr @ [x]) @ xs)"
    by simp
  also have "\<dots> = foldl (\<lambda>F a. acquires a = None \<and> (F \<or> fails e a))
                      (failed_since e (tr @ [x])) xs"
    by (rule Cons)
  finally show ?case
    by (simp add: failed_since_snoc)
qed

lemma unwound_summary: "unwound tr = (case summary tr of (H, HF, us) \<Rightarrow> us = unwind_of HF)"
  by (simp add: unwound_def summary_def)

lemma unwound_fixed_summary:
  "unwound_fixed tr
     = (case summary tr of (H, HF, us) \<Rightarrow> us = unwind_of (in_bootstrap_order HF))"
  by (simp add: unwound_fixed_def summary_def)

lemma prefix_grow: "prefix tr0 tr \<Longrightarrow> prefix tr0 (tr @ xs) = True"
  by (simp add: prefix_prefix)

lemma calls_since_grow: "prefix tr0 tr \<Longrightarrow> calls_since tr0 (tr @ xs) = calls_since tr0 tr @ xs"
  by (simp add: calls_since_def prefix_length_le)

lemma calls_since_self: "calls_since tr tr = []"
  by (simp add: calls_since_def)

lemma calls_since_join: "prefix tr0 tr \<Longrightarrow> tr0 @ calls_since tr0 tr = tr"
  by (auto simp: calls_since_def prefix_def)

lemma calls_since_added: "calls_since tr (tr @ xs) = xs"
  by (simp add: calls_since_def)

lemma summary_Nil: "summary [] = ([], [], [])"
  by (simp add: summary_def held_def forward_part_def unwind_part_def)

lemma summary_run: "summary xs = foldl analyse ([], [], []) xs"
  using summary_append [of "[]" xs] by (simp add: summary_Nil)

lemmas track = holds_in_def returns_unwound_def unwound_summary unwound_fixed_summary
  prefix_grow calls_since_grow summary_append failed_since_append
  held_step_def is_release_def bootstrap_order_def in_bootstrap_order_def unwind_of_def Let_def

lemma unwinds_startup:
  "holds_in tr0 {([], [], [])} c \<Longrightarrow>
     post (holds_in tr0 {(help_attached, help_attached, [])}) (returns_unwound b e tr0)
       (init_startup b e c)"
  by (simp add: init_startup_def track)

lemma unwinds_cmdline_first:
  "holds_in tr0 {(help_attached, help_attached, [])} c \<Longrightarrow>
     post (holds_in tr0 {(help_attached, help_attached, [])}) (returns_unwound b e tr0)
       (init_cmdline_first b e c)"
  by (simp add: init_cmdline_first_def track)

lemma unwinds_config_paths:
  "holds_in tr0 {(help_attached, help_attached, [])} c \<Longrightarrow>
     post (holds_in tr0 {(help_detached, help_attached, [Module HelpDetach])})
       (returns_unwound b e tr0) (init_config_paths b e c)"
  by (simp add: init_config_paths_def track split: option.splits)

lemma unwinds_daemon:
  "holds_in tr0 {(help_detached, help_attached, [Module HelpDetach])} c \<Longrightarrow>
     post (holds_in tr0 {(help_detached, help_attached, [Module HelpDetach]),
                         (help_detached, help_detached, [])})
       (returns_unwound b e tr0) (init_daemon b e c)"
  by (auto simp: init_daemon_def daemon_step_def pidfile_step_def track split: option.splits)

text \<open>
  The language block: when it reloads, the module bank is given back and acquired
  again, after the help module object and its configuration.
\<close>

lemma unwinds_language:
  "holds_in tr0 {(help_detached, help_attached, [Module HelpDetach]),
                 (help_detached, help_detached, [])} c \<Longrightarrow>
     post (holds_in tr0 (if reloads b e
                         then {(reloaded_detached, reloaded_detached, [])}
                         else {(help_detached, help_attached, [Module HelpDetach]),
                               (help_detached, help_detached, [])}))
       (returns_unwound b e tr0) (init_language b e c)"
  by (auto simp: init_language_def reloads_def track split: option.splits)

lemma unwinds_modules:
  "holds_in tr0 (if reloads b e
                 then {(reloaded_detached, reloaded_detached, [])}
                 else {(help_detached, help_attached, [Module HelpDetach]),
                       (help_detached, help_detached, [])}) c \<Longrightarrow>
     post (holds_in tr0 (if reloads b e
                         then {(reloaded_detached, reloaded_attached, [Module HelpDetach])}
                         else {(help_detached, help_attached, [Module HelpDetach])}))
       (returns_unwound b e tr0) (init_modules b e c)"
  by (cases "reloads b e")
     (auto simp: init_modules_def help_step_def reset_config_step_def save_config_step_def
       track split: option.splits)

lemma unwinds_config_final:
  "holds_in tr0 (if reloads b e
                 then {(reloaded_detached, reloaded_attached, [Module HelpDetach])}
                 else {(help_detached, help_attached, [Module HelpDetach])}) c \<Longrightarrow>
     post (holds_in tr0 {([RBank], [RBank], [])}) (returns_unwound b e tr0)
       (init_config_final b e c)"
  by (cases "reloads b e") (auto simp: init_config_final_def track)

lemma unwinds_dbus:
  "holds_in tr0 {([RBank], [RBank], [])} c \<Longrightarrow>
     post (holds_in tr0 {([RBank], [RBank], [])}) (returns_unwound b e tr0) (init_dbus b e c)"
  by (auto simp: init_dbus_def track split: name_reply.splits)

lemma unwinds_messages:
  "holds_in tr0 {([RBank], [RBank], [])} c \<Longrightarrow>
     post (with_memcpy tr0) (returns_unwound b e tr0) (init_messages b e c)"
  by (cases "module_Need_memcpy e") (simp_all add: init_messages_def with_memcpy_def track)

lemma unwinds_playlist:
  "with_memcpy tr0 c \<Longrightarrow> post (\<lambda>c. True) (returns_unwound b e tr0) (init_playlist b e c)"
  by (auto simp: init_playlist_def with_memcpy_def track split: option.splits)

lemma unwinds_interfaces:
  "post (\<lambda>c. True) (returns_unwound b e tr0) (init_interfaces b e c)"
  by (simp add: init_interfaces_def returns_unwound_def Let_def split: option.splits)

lemma unwinds_targets:
  "post (\<lambda>c. True) (returns_unwound b e tr0) (init_targets b e c)"
  by (simp add: init_targets_def returns_unwound_def Let_def)

lemma unwinds_bootstrap:
  "holds_in tr0 {([], [], [])} c \<Longrightarrow>
     post (holds_in tr0 {([RBank], [RBank], [])}) (returns_unwound b e tr0)
       (init_bootstrap b e c)"
  unfolding init_bootstrap_def init_before_language_def
  by (rule post_andthen [OF _ unwinds_config_final],
      rule post_andthen [OF _ unwinds_modules],
      rule post_andthen [OF _ unwinds_language],
      rule post_andthen [OF _ unwinds_daemon],
      rule post_andthen [OF _ unwinds_config_paths],
      rule post_andthen [OF _ unwinds_cmdline_first],
      rule unwinds_startup)

lemma unwinds_running:
  "holds_in tr0 {([RBank], [RBank], [])} c \<Longrightarrow>
     post (\<lambda>c. True) (returns_unwound b e tr0) (init_running b e c)"
  unfolding init_running_def
  by (rule post_andthen [OF _ unwinds_targets],
      rule post_andthen [OF _ unwinds_interfaces],
      rule post_andthen [OF _ unwinds_playlist],
      rule unwinds_messages)

lemma unwinds_init:
  "post (\<lambda>c. True) (returns_unwound b e (trace w)) (libvlc_InternalInit b e p w)"
proof -
  have start: "holds_in (trace w) {([], [], [])} (init_ctx_of p w)"
    by (simp add: holds_in_def init_ctx_of_def calls_since_self summary_Nil)
  show ?thesis
    unfolding libvlc_InternalInit_def
    by (rule post_andthen [OF _ unwinds_running],
        rule post_andthen [OF _ unwinds_dbus],
        rule unwinds_bootstrap, rule start)
qed

lemma early_cmdline_failure:
  assumes "help_module_create e" and "cmdline_first e \<noteq> 0"
  shows "libvlc_InternalInit b e p w
         = Stop (Ends (Returned VLC_EGENERIC))
             (end_bank (say [Module HelpDetach, Module ConfigFree, Module HelpModuleDestroy]
               (say [Config (ConfigLoadCmdLine True)]
                 (say [Module (HelpModuleCreate True), Module ConfigDuplicate, Module HelpAttach]
                   (init_bank
                     (say [Sys (SetLanguage []), Sys LocaleInit,
                           Msg (MsgDbg ''translation test: code is C'')]
                       ((say [Sys SystemInit] (init_ctx_of p w))
                          \<lparr>vlc := (vlc (init_ctx_of p w))\<lparr>psz_object_name :=
                             (case ppsz_argv e of
                                argv0 # x \<Rightarrow> object_name_from argv0 argv0
                              | [] \<Rightarrow> ''vlc'')\<rparr>\<rparr>)))))))"
  using assms
  by (simp add: libvlc_InternalInit_def init_bootstrap_def init_before_language_def
      init_startup_def init_cmdline_first_def Let_def)

text \<open>
  C6, as stated, fails: a \<^verbatim>\<open>WIN32\<close> build, the language \<^verbatim>\<open>fr\<close>, and a command line
  that the last, checked reading rejects. The language block has ended the module bank
  and initialised it again after the help module object was created and its
  configuration duplicated, so of what the function holds when the reading fails the
  bank is the third acquired and the attachment the fourth. The function returns
  \<^verbatim>\<open>VLC_EGENERIC\<close> after detaching, freeing the configuration, destroying the help
  module and, last, ending the bank; the reverse of the order of acquisition would end
  the bank second.
\<close>

theorem unwinding_order_counterexample:
  "ending_of (libvlc_InternalInit build_win32 env_french_late_failure created_instance
                created_process)
     = Some (Ends (Returned VLC_EGENERIC))
   \<and> held (forward_part (calls_since (trace created_process)
              (trace_of (libvlc_InternalInit build_win32 env_french_late_failure
                           created_instance created_process))))
       = [RHelpObject, RHelpConfig, RBank, RHelpAttach]
   \<and> unwind_part (calls_since (trace created_process)
        (trace_of (libvlc_InternalInit build_win32 env_french_late_failure created_instance
                     created_process)))
       = [Module HelpDetach, Module ConfigFree, Module HelpModuleDestroy, Module ModuleEndBank]
   \<and> unwind_of (held (forward_part (calls_since (trace created_process)
        (trace_of (libvlc_InternalInit build_win32 env_french_late_failure created_instance
                     created_process)))))
       = [Module HelpDetach, Module ModuleEndBank, Module ConfigFree, Module HelpModuleDestroy]"
  by code_simp

text \<open>
  C6, amended: let \<^verbatim>\<open>libvlc_InternalInit\<close> return any status but \<^verbatim>\<open>VLC_SUCCESS\<close>, in
  any process, whatever other instances hold. Of the calls this run has added to the
  trace, the releasing calls at the end are exactly the releases of what the run has
  acquired and still holds before them (module bank, help module object, help module
  configuration, its attachment, memcpy module), always in the one order
  \<^verbatim>\<open>module_Unneed\<close>, detach, \<^verbatim>\<open>config_Free\<close>, destroy, \<^verbatim>\<open>module_EndBank\<close>, as far as
  each is held. Unless the language block has reloaded (\<open>reloads\<close>), that is the exact
  reverse of the order in which the run acquired them. When the status is
  \<^verbatim>\<open>VLC_EGENERIC\<close> (a step has failed), the failing call lies after the last
  acquisition, so nothing acquired at or after the failing step exists for the unwinding
  to touch. For a failure of the first command-line parsing the unwinding is the full
  list of four calls. Path strings, variables and the hotkey table are not part of the
  unwinding: \<^verbatim>\<open>libvlc_InternalDestroy\<close> frees them.
\<close>

theorem failure_unwinds_in_reverse:
  assumes ret: "libvlc_InternalInit b e p w = Stop (Ends (Returned rc)) c"
    and failure: "rc \<noteq> VLC_SUCCESS"
  shows "trace (proc c) = trace w @ calls_since (trace w) (trace (proc c))
     \<and> unwind_part (calls_since (trace w) (trace (proc c)))
         = unwind_of (in_bootstrap_order
             (held (forward_part (calls_since (trace w) (trace (proc c))))))
     \<and> (\<not> reloads b e \<longrightarrow>
          unwind_part (calls_since (trace w) (trace (proc c)))
            = unwind_of (held (forward_part (calls_since (trace w) (trace (proc c))))))
     \<and> (rc = VLC_EGENERIC \<longrightarrow>
          list_ex (fails e) (after_last_acquire (calls_since (trace w) (trace (proc c)))))
     \<and> (help_module_create e \<and> cmdline_first e \<noteq> 0 \<longrightarrow>
          rc = VLC_EGENERIC
          \<and> unwind_part (calls_since (trace w) (trace (proc c)))
              = [Module HelpDetach, Module ConfigFree, Module HelpModuleDestroy,
                 Module ModuleEndBank])"
proof -
  let ?added = "calls_since (trace w) (trace (proc c))"
  from unwinds_init [of b e w p] ret failure
  have main: "prefix (trace w) (trace (proc c))
       \<and> unwound_fixed ?added
       \<and> (\<not> reloads b e \<longrightarrow> unwound ?added)
       \<and> (rc = VLC_EGENERIC \<longrightarrow> failed_since e ?added)"
    by (simp add: returns_unwound_def)
  then have join: "trace (proc c) = trace w @ ?added"
    by (simp add: calls_since_join)
  have early: "rc = VLC_EGENERIC
          \<and> unwind_part ?added
              = [Module HelpDetach, Module ConfigFree, Module HelpModuleDestroy,
                 Module ModuleEndBank]"
    if "help_module_create e \<and> cmdline_first e \<noteq> 0"
  proof -
    from that have e1: "help_module_create e" and e2: "cmdline_first e \<noteq> 0"
      by simp_all
    note eq = early_cmdline_failure [OF e1 e2, of b p w]
    from ret have rc: "rc = VLC_EGENERIC" and c: "c = ctx_of (libvlc_InternalInit b e p w)"
      unfolding eq by simp_all
    have "summary (calls_since (trace w) (trace (proc c)))
          = ([], help_attached, [Module HelpDetach, Module ConfigFree, Module HelpModuleDestroy,
                 Module ModuleEndBank])"
      unfolding c eq
      by (simp add: init_ctx_of_def calls_since_added)
         (simp add: summary_run held_step_def is_release_def)
    then have "unwind_part ?added
              = [Module HelpDetach, Module ConfigFree, Module HelpModuleDestroy,
                 Module ModuleEndBank]"
      by (simp add: summary_def)
    with rc show ?thesis by simp
  qed
  have fixed: "unwind_part ?added
                = unwind_of (in_bootstrap_order (held (forward_part ?added)))"
    using main by (simp add: unwound_fixed_def)
  have exact: "\<not> reloads b e \<longrightarrow>
                 unwind_part ?added = unwind_of (held (forward_part ?added))"
    using main by (simp add: unwound_def)
  have failing: "rc = VLC_EGENERIC \<longrightarrow> list_ex (fails e) (after_last_acquire ?added)"
    using main by (simp add: failed_since_def)
  from join fixed exact failing early show ?thesis
    by blast
qed

text \<open>
  A process in which one instance is initialised and running, holding the module bank
  and the memcpy module: a second initialisation fails at the checked reading of the
  command line, a third at the creation of the playlist. On a \<^verbatim>\<open>WIN32\<close> build with a
  reload the releases come in the order of the bootstrap steps.
\<close>

theorem failure_unwinds_in_reverse_witness:
  "held (trace running_process) = [RBank, RMemcpy]
   \<and> ending_of (libvlc_InternalInit build_linux env_late_failure created_instance
                  running_process)
       = Some (Ends (Returned VLC_EGENERIC))
   \<and> unwind_part (calls_since (trace running_process)
        (trace_of (libvlc_InternalInit build_linux env_late_failure created_instance
                     running_process)))
       = unwind_of (held (forward_part (calls_since (trace running_process)
           (trace_of (libvlc_InternalInit build_linux env_late_failure created_instance
                        running_process)))))
   \<and> unwind_part (calls_since (trace running_process)
        (trace_of (libvlc_InternalInit build_linux env_late_failure created_instance
                     running_process)))
       = [Module HelpDetach, Module ConfigFree, Module HelpModuleDestroy, Module ModuleEndBank]
   \<and> list_ex (fails env_late_failure)
        (after_last_acquire (calls_since (trace running_process)
           (trace_of (libvlc_InternalInit build_linux env_late_failure created_instance
                        running_process))))
   \<and> unwind_part (calls_since (trace running_process)
        (trace_of (libvlc_InternalInit build_linux env_no_playlist created_instance
                     running_process)))
       = unwind_of (held (forward_part (calls_since (trace running_process)
           (trace_of (libvlc_InternalInit build_linux env_no_playlist created_instance
                        running_process)))))
   \<and> unwind_part (calls_since (trace running_process)
        (trace_of (libvlc_InternalInit build_linux env_no_playlist created_instance
                     running_process)))
       = [Module ModuleUnneed, Module ModuleEndBank]
   \<and> unwind_part (calls_since (trace running_process)
        (trace_of (libvlc_InternalInit build_win32 env_french_late_failure created_instance
                     running_process)))
       = unwind_of (in_bootstrap_order (held (forward_part (calls_since (trace running_process)
           (trace_of (libvlc_InternalInit build_win32 env_french_late_failure
                        created_instance running_process))))))"
proof -
  let ?late = "libvlc_InternalInit build_linux env_late_failure created_instance running_process"
  let ?nopl = "libvlc_InternalInit build_linux env_no_playlist created_instance running_process"
  let ?french = "libvlc_InternalInit build_win32 env_french_late_failure created_instance
                   running_process"
  have busy: "held (trace running_process) = [RBank, RMemcpy]"
    by code_simp
  have late: "ending_of ?late = Some (Ends (Returned VLC_EGENERIC))"
    by code_simp
  have nopl: "ending_of ?nopl = Some (Ends (Returned VLC_EGENERIC))"
    by code_simp
  have french: "ending_of ?french = Some (Ends (Returned VLC_EGENERIC))"
    by code_simp
  have late_eq: "?late = Stop (Ends (Returned VLC_EGENERIC)) (ctx_of ?late)"
    using late by (cases ?late) simp_all
  have nopl_eq: "?nopl = Stop (Ends (Returned VLC_EGENERIC)) (ctx_of ?nopl)"
    using nopl by (cases ?nopl) simp_all
  have french_eq: "?french = Stop (Ends (Returned VLC_EGENERIC)) (ctx_of ?french)"
    using french by (cases ?french) simp_all
  have plain: "\<not> reloads build_linux env_late_failure" "\<not> reloads build_linux env_no_playlist"
    by (simp_all add: reloads_def build_linux_def)
  have shape: "unwind_part (calls_since (trace running_process) (trace_of ?late))
       = [Module HelpDetach, Module ConfigFree, Module HelpModuleDestroy, Module ModuleEndBank]"
    "unwind_part (calls_since (trace running_process) (trace_of ?nopl))
       = [Module ModuleUnneed, Module ModuleEndBank]"
    by code_simp+
  have neq: "VLC_EGENERIC \<noteq> VLC_SUCCESS"
    by simp
  note th1 = failure_unwinds_in_reverse [OF late_eq neq]
  note th2 = failure_unwinds_in_reverse [OF nopl_eq neq]
  note th3 = failure_unwinds_in_reverse [OF french_eq neq]
  have a: "unwind_part (calls_since (trace running_process) (trace_of ?late))
       = unwind_of (held (forward_part (calls_since (trace running_process) (trace_of ?late))))"
    using th1 [THEN conjunct2, THEN conjunct2, THEN conjunct1] plain(1)
    by (simp add: trace_of_def)
  have b: "list_ex (fails env_late_failure)
        (after_last_acquire (calls_since (trace running_process) (trace_of ?late)))"
    using th1 [THEN conjunct2, THEN conjunct2, THEN conjunct2, THEN conjunct1]
    by (simp add: trace_of_def)
  have c: "unwind_part (calls_since (trace running_process) (trace_of ?nopl))
       = unwind_of (held (forward_part (calls_since (trace running_process) (trace_of ?nopl))))"
    using th2 [THEN conjunct2, THEN conjunct2, THEN conjunct1] plain(2)
    by (simp add: trace_of_def)
  have d: "unwind_part (calls_since (trace running_process) (trace_of ?french))
       = unwind_of (in_bootstrap_order
           (held (forward_part (calls_since (trace running_process) (trace_of ?french)))))"
    using th3 [THEN conjunct2, THEN conjunct1]
    by (simp add: trace_of_def)
  from busy late a b c d show ?thesis
    unfolding shape by simp
qed

subsection \<open>The daemon flag outside daemon-capable builds\<close>

lemma forward_mrls_global: "libvlc_global (forward_mrls e i items w) = libvlc_global w"
  by (subst forward_mrls_frame) simp

lemma dinv_before_language:
  "dinv b d c \<Longrightarrow> post (dinv b d) (\<lambda>x. dinv b d) (init_before_language b e c)"
  unfolding init_before_language_def
proof (intro post_andthen [where Q = "dinv b d"])
  show "dinv b d c \<Longrightarrow> post (dinv b d) (\<lambda>x. dinv b d) (init_startup b e c)"
    by (simp add: dinv_def init_startup_def Let_def)
  show "\<And>c. dinv b d c \<Longrightarrow> post (dinv b d) (\<lambda>x. dinv b d) (init_cmdline_first b e c)"
    by (simp add: dinv_def init_cmdline_first_def Let_def)
  show "\<And>c. dinv b d c \<Longrightarrow> post (dinv b d) (\<lambda>x. dinv b d) (init_config_paths b e c)"
    by (simp add: dinv_def init_config_paths_def Let_def split: option.splits)
  show "\<And>c. dinv b d c \<Longrightarrow> post (dinv b d) (\<lambda>x. dinv b d) (init_daemon b e c)"
    by (simp add: dinv_def init_daemon_def daemon_step_def Let_def)
qed

lemma dinv_bootstrap:
  "dinv b d c \<Longrightarrow> post (dinv b d) (\<lambda>x. dinv b d) (init_bootstrap b e c)"
  unfolding init_bootstrap_def
proof (intro post_andthen [where Q = "dinv b d"] dinv_before_language)
  show "\<And>c. dinv b d c \<Longrightarrow> post (dinv b d) (\<lambda>x. dinv b d) (init_language b e c)"
    by (simp add: dinv_def init_language_def Let_def split: option.splits)
  show "\<And>c. dinv b d c \<Longrightarrow> post (dinv b d) (\<lambda>x. dinv b d) (init_modules b e c)"
    by (simp add: dinv_def init_modules_def help_step_def reset_config_step_def
        save_config_step_def Let_def split: option.splits)
  show "\<And>c. dinv b d c \<Longrightarrow> post (dinv b d) (\<lambda>x. dinv b d) (init_config_final b e c)"
    by (simp add: dinv_def init_config_final_def Let_def)
qed

lemma dinv_running:
  "dinv b d c \<Longrightarrow> post (dinv b d) (\<lambda>x. dinv b d) (init_running b e c)"
  unfolding init_running_def
proof (intro post_andthen [where Q = "dinv b d"])
  show "dinv b d c \<Longrightarrow> post (dinv b d) (\<lambda>x. dinv b d) (init_messages b e c)"
    by (simp add: dinv_def init_messages_def Let_def)
  show "\<And>c. dinv b d c \<Longrightarrow> post (dinv b d) (\<lambda>x. dinv b d) (init_playlist b e c)"
    by (simp add: dinv_def init_playlist_def Let_def split: option.splits)
  show "\<And>c. dinv b d c \<Longrightarrow> post (dinv b d) (\<lambda>x. dinv b d) (init_interfaces b e c)"
    by (simp add: dinv_def init_interfaces_def add_intf_if_def Let_def split: option.splits)
  show "\<And>c. dinv b d c \<Longrightarrow> post (dinv b d) (\<lambda>x. dinv b d) (init_targets b e c)"
    by (simp add: dinv_def init_targets_def Let_def split: option.splits)
qed

lemma dinv_dbus:
  "dinv b d c \<Longrightarrow> post (dinv b d) (\<lambda>x. dinv b d) (init_dbus b e c)"
  by (simp add: dinv_def init_dbus_def Let_def forward_mrls_global split: name_reply.splits)

lemma init_keeps_daemon_flag_off_on_win32:
  assumes "WIN32 b"
  shows "b_daemon (libvlc_global (proc (ctx_of (libvlc_InternalInit b e p w))))
         = b_daemon (libvlc_global w)"
proof -
  have "dinv b (b_daemon (libvlc_global w)) (init_ctx_of p w)"
    by (simp add: dinv_def init_ctx_of_def)
  then have "post (dinv b (b_daemon (libvlc_global w))) (\<lambda>x. dinv b (b_daemon (libvlc_global w)))
               (libvlc_InternalInit b e p w)"
    unfolding libvlc_InternalInit_def
    by (intro post_andthen [where Q = "dinv b (b_daemon (libvlc_global w))"] dinv_bootstrap
        dinv_dbus dinv_running)
  from post_same [OF this] assms show ?thesis
    by (simp add: dinv_def)
qed

end
